theory Spec2Isabelle
  imports Main "HOL-Library.Word"
begin

unbundle bit_operations_syntax

section \<open>Python values, errors and the sender object\<close>

text \<open>
  The source is \<^verbatim>\<open>src/webhooks/senders/base.py\<close> (Python 3 branch of the
  \<^verbatim>\<open>sys.version\<close> test). Configuration values are arbitrary Python objects; the model
  keeps the kinds whose truth value, equality with a string, item assignment and
  \<^verbatim>\<open>.encode\<close> the source depends on. A Python \<^verbatim>\<open>str\<close> is a \<open>string\<close> whose
  characters are the code points 0..255; \<^verbatim>\<open>bytes\<close> is a list of 8-bit words; a
  \<^verbatim>\<open>dict\<close> with string keys is a map.
\<close>

type_synonym byte = "8 word"

datatype pyval =
    PNone
  | PBool bool
  | PInt int
  | PStr string
  | PBytes "byte list"
  | PList "pyval list"
  | PDict "string \<Rightarrow> pyval option"

text \<open>Python's truth value of an object (\<^verbatim>\<open>not x\<close>, \<^verbatim>\<open>x or y\<close>, \<^verbatim>\<open>if x\<close>).\<close>

fun truthy :: "pyval \<Rightarrow> bool" where
  "truthy PNone = False"
| "truthy (PBool b) = b"
| "truthy (PInt i) = (i \<noteq> 0)"
| "truthy (PStr s) = (s \<noteq> [])"
| "truthy (PBytes b) = (b \<noteq> [])"
| "truthy (PList xs) = (xs \<noteq> [])"
| "truthy (PDict m) = (m \<noteq> Map.empty)"

text \<open>
  Exceptions as values. \<open>TypeError\<close> and \<open>AttributeError\<close> are the two classes the
  source and the interpreter raise on the modelled paths; \<open>UserError\<close> is whatever the
  caller's payload function or the JSON encoder raises. \<open>str_of_error\<close> is
  \<^verbatim>\<open>str(ex)\<close>.
\<close>

datatype error = TypeError string | AttributeError string | UserError string

fun str_of_error :: "error \<Rightarrow> string" where
  "str_of_error (TypeError m) = m"
| "str_of_error (AttributeError m) = m"
| "str_of_error (UserError m) = m"

text \<open>
  The value the payload function returns: a string or a mapping, the two shapes
  \<^verbatim>\<open>_send\<close> merges into its result (lines 188-195).
\<close>

datatype payload = PayStr string | PayDict "string \<Rightarrow> pyval option"

fun payload_value :: "payload \<Rightarrow> pyval" where
  "payload_value (PayStr x) = PStr x"
| "payload_value (PayDict m) = PDict m"

text \<open>
  What \<^verbatim>\<open>requests.post\<close> hands back: it raises (\<open>Raises\<close> carries \<^verbatim>\<open>str(ex)\<close>) or
  returns a response. \<open>content_utf8\<close> is the outcome of
  \<^verbatim>\<open>response.content.decode('utf-8')\<close>: \<open>Inr\<close> the decoded text, \<open>Inl\<close> the message of
  the \<^verbatim>\<open>UnicodeDecodeError\<close>. \<open>response_text\<close> is \<^verbatim>\<open>response.text\<close>, which
  requests decodes with the response's own charset (the field cannot be called
  \<open>text\<close>, an Isabelle command).
\<close>

record response =
  status_code :: int
  response_text :: string
  content_utf8 :: "string + string"

datatype post_result = Raises string | Returns response

text \<open>
  The object \<^verbatim>\<open>__init__\<close> builds (lines 21-33). \<open>attempts\<close> is the schedule; the
  source reads only its length.
\<close>

record sender =
  wrapped :: "pyval list \<Rightarrow> (string \<Rightarrow> pyval option) \<Rightarrow> error + payload"
  dkwargs :: "string \<Rightarrow> pyval option"
  hash_value :: "string option"
  attempts :: "nat list"
  args :: "pyval list"
  kwargs :: "string \<Rightarrow> pyval option"
  attempt :: nat
  error :: "string option"
  response :: "response option"

definition Senderable ::
  "(pyval list \<Rightarrow> (string \<Rightarrow> pyval option) \<Rightarrow> error + payload) \<Rightarrow> (string \<Rightarrow> pyval option)
     \<Rightarrow> string option \<Rightarrow> nat list \<Rightarrow> pyval list \<Rightarrow> (string \<Rightarrow> pyval option) \<Rightarrow> sender" where
  "Senderable w dk h att a kw =
     \<lparr>wrapped = w, dkwargs = dk, hash_value = h, attempts = att, args = a, kwargs = kw,
      attempt = 0, error = None, response = None\<rparr>"

section \<open>Configuration lookup (lines 35-76 and 210-229)\<close>

definition EncodingType_FORMS :: string where
  "EncodingType_FORMS = ''application/x-www-form-urlencoded''"

definition EncodingType_JSON :: string where
  "EncodingType_JSON = ''application/json''"

text \<open>
  \<^verbatim>\<open>_value_in(key, required, dkwargs, kwargs)\<close>: the keyword arguments win, then the
  defaults; a missing required key raises \<^verbatim>\<open>TypeError\<close>, a missing optional one is
  \<^verbatim>\<open>None\<close>. (An Isabelle name cannot start with an underscore: the source's leading
  underscore is written \<open>priv_\<close>.)
\<close>

definition priv_value_in ::
  "string \<Rightarrow> bool \<Rightarrow> (string \<Rightarrow> pyval option) \<Rightarrow> (string \<Rightarrow> pyval option) \<Rightarrow> error + pyval" where
  "priv_value_in key required dkw kw =
     (case kw key of
        Some v \<Rightarrow> Inr v
      | None \<Rightarrow>
          (case dkw key of
             Some v \<Rightarrow> Inr v
           | None \<Rightarrow>
               if required
               then Inl (TypeError (''Sender function needs a '' @ key @ '' argument''))
               else Inr PNone))"

definition value_in :: "string \<Rightarrow> (string \<Rightarrow> pyval option) \<Rightarrow> (string \<Rightarrow> pyval option) \<Rightarrow> error + pyval" where
  "value_in key dkw kw = priv_value_in key True dkw kw"

definition value_in_opt :: "string \<Rightarrow> (string \<Rightarrow> pyval option) \<Rightarrow> (string \<Rightarrow> pyval option) \<Rightarrow> error + pyval" where
  "value_in_opt key dkw kw = priv_value_in key False dkw kw"

definition priv_default_timeout :: pyval where
  "priv_default_timeout = PInt 5"

text \<open>
  The \<^verbatim>\<open>cached_property\<close> accessors compute a pure function of \<open>kwargs\<close> and
  \<open>dkwargs\<close>, so the cached value is the value of the getter; a getter that raises
  caches nothing and raises again at the next access.
\<close>

definition get_url :: "sender \<Rightarrow> error + pyval" where
  "get_url s = priv_value_in ''url'' True (dkwargs s) (kwargs s)"

definition get_custom_headers :: "sender \<Rightarrow> error + pyval" where
  "get_custom_headers s = priv_value_in ''custom_headers'' False (dkwargs s) (kwargs s)"

definition get_signing_secret :: "sender \<Rightarrow> error + pyval" where
  "get_signing_secret s = priv_value_in ''signing_secret'' False (dkwargs s) (kwargs s)"

definition invalid_encoding_msg :: string where
  "invalid_encoding_msg =
     ''Invalid choice for '' @ [CHR 0x27] @ ''encoding'' @ [CHR 0x27] @ ''. Valid selections are ''
       @ [CHR 0x27] @ EncodingType_FORMS @ [CHR 0x27] @ '' or ''
       @ [CHR 0x27] @ EncodingType_JSON @ [CHR 0x27]"

definition get_encoding :: "sender \<Rightarrow> error + pyval" where
  "get_encoding s =
     (case priv_value_in ''encoding'' True (dkwargs s) (kwargs s) of
        Inl e \<Rightarrow> Inl e
      | Inr encoding \<Rightarrow>
          if \<not> truthy encoding
              \<or> \<not> (encoding = PStr EncodingType_JSON \<or> encoding = PStr EncodingType_FORMS)
          then Inl (TypeError invalid_encoding_msg)
          else Inr encoding)"

text \<open>\<^verbatim>\<open>_value_in('timeout', False, ...) or self._default_timeout()\<close>.\<close>

definition get_timeout :: "sender \<Rightarrow> error + pyval" where
  "get_timeout s =
     (case priv_value_in ''timeout'' False (dkwargs s) (kwargs s) of
        Inl e \<Rightarrow> Inl e
      | Inr v \<Rightarrow> Inr (if truthy v then v else priv_default_timeout))"

section \<open>SHA-256 and the signature (lines 198-208)\<close>

text \<open>
  \<^verbatim>\<open>Crypto.Hash.SHA256\<close> is a library the source calls. Its function is written out
  here after FIPS 180-4, on 32-bit values held as \<open>int\<close> with the wrap-around
  explicit (\<open>add32\<close>), so that a digest can be computed inside the logic. The round
  constants and the initial hash value are given in decimal.
\<close>

definition K256 :: "int list" where
  "K256 =
    [1116352408, 1899447441, 3049323471, 3921009573, 961987163, 1508970993, 2453635748, 2870763221,
     3624381080, 310598401, 607225278, 1426881987, 1925078388, 2162078206, 2614888103, 3248222580,
     3835390401, 4022224774, 264347078, 604807628, 770255983, 1249150122, 1555081692, 1996064986,
     2554220882, 2821834349, 2952996808, 3210313671, 3336571891, 3584528711, 113926993, 338241895,
     666307205, 773529912, 1294757372, 1396182291, 1695183700, 1986661051, 2177026350, 2456956037,
     2730485921, 2820302411, 3259730800, 3345764771, 3516065817, 3600352804, 4094571909, 275423344,
     430227734, 506948616, 659060556, 883997877, 958139571, 1322822218, 1537002063, 1747873779,
     1955562222, 2024104815, 2227730452, 2361852424, 2428436474, 2756734187, 3204031479, 3329325298]"

definition H256 :: "int \<times> int \<times> int \<times> int \<times> int \<times> int \<times> int \<times> int" where
  "H256 = (1779033703, 3144134277, 1013904242, 2773480762,
           1359893119, 2600822924, 528734635, 1541459225)"

definition add32 :: "int \<Rightarrow> int \<Rightarrow> int" where
  "add32 x y = (x + y) mod 4294967296"

definition rotr :: "nat \<Rightarrow> int \<Rightarrow> int" where
  "rotr n x = x div 2 ^ n + (x mod 2 ^ n) * 2 ^ (32 - n)"

definition ch :: "int \<Rightarrow> int \<Rightarrow> int \<Rightarrow> int" where
  "ch x y z = (x AND y) XOR ((4294967295 - x) AND z)"

definition maj :: "int \<Rightarrow> int \<Rightarrow> int \<Rightarrow> int" where
  "maj x y z = (x AND y) XOR (x AND z) XOR (y AND z)"

definition bsig0 :: "int \<Rightarrow> int" where
  "bsig0 x = rotr 2 x XOR rotr 13 x XOR rotr 22 x"

definition bsig1 :: "int \<Rightarrow> int" where
  "bsig1 x = rotr 6 x XOR rotr 11 x XOR rotr 25 x"

definition ssig0 :: "int \<Rightarrow> int" where
  "ssig0 x = rotr 7 x XOR rotr 18 x XOR x div 2 ^ 3"

definition ssig1 :: "int \<Rightarrow> int" where
  "ssig1 x = rotr 17 x XOR rotr 19 x XOR x div 2 ^ 10"

text \<open>Big-endian 32-bit words of a byte string; the 64-bit big-endian bit length.\<close>

fun be32 :: "byte list \<Rightarrow> int list" where
  "be32 (a # b # c # d # rest) =
     (((uint a * 256 + uint b) * 256 + uint c) * 256 + uint d) # be32 rest"
| "be32 _ = []"

definition bytes_of_u64 :: "64 word \<Rightarrow> byte list" where
  "bytes_of_u64 w = map (\<lambda>i. ucast (drop_bit (8 * (7 - i)) w)) [0..<8]"

definition pad :: "byte list \<Rightarrow> byte list" where
  "pad m =
     (let l = length m; k = (119 - l mod 64) mod 64
      in m @ [0x80] @ replicate k 0 @ bytes_of_u64 (word_of_nat (8 * l)))"

fun chunks :: "nat \<Rightarrow> 'a list \<Rightarrow> 'a list list" where
  "chunks 0 xs = []"
| "chunks (Suc n) xs = take 16 xs # chunks n (drop 16 xs)"

text \<open>The message schedule, newest word first: \<open>expand 48\<close> of the reversed block.\<close>

fun expand :: "nat \<Rightarrow> int list \<Rightarrow> int list" where
  "expand 0 w = w"
| "expand (Suc n) w =
     expand n (add32 (add32 (ssig1 (w ! 1)) (w ! 6)) (add32 (ssig0 (w ! 14)) (w ! 15)) # w)"

definition round1 ::
  "int \<times> int \<times> int \<times> int \<times> int \<times> int \<times> int \<times> int \<Rightarrow> int \<times> int
     \<Rightarrow> int \<times> int \<times> int \<times> int \<times> int \<times> int \<times> int \<times> int" where
  "round1 s kw =
     (case s of (a, b, c, d, e, f, g, h) \<Rightarrow>
        (let t1 = add32 (add32 (add32 h (bsig1 e)) (add32 (ch e f g) (fst kw))) (snd kw);
             t2 = add32 (bsig0 a) (maj a b c)
         in (add32 t1 t2, a, b, c, add32 d t1, e, f, g)))"

definition compress ::
  "int \<times> int \<times> int \<times> int \<times> int \<times> int \<times> int \<times> int \<Rightarrow> int list
     \<Rightarrow> int \<times> int \<times> int \<times> int \<times> int \<times> int \<times> int \<times> int" where
  "compress s blk =
     (case s of (a, b, c, d, e, f, g, h) \<Rightarrow>
        (case foldl round1 s (zip K256 (rev (expand 48 (rev blk)))) of
           (a', b', c', d', e', f', g', h') \<Rightarrow>
             (add32 a a', add32 b b', add32 c c', add32 d d',
              add32 e e', add32 f f', add32 g g', add32 h h')))"

definition bytes_of_u32 :: "int \<Rightarrow> byte list" where
  "bytes_of_u32 w =
     [word_of_int (w div 16777216), word_of_int (w div 65536), word_of_int (w div 256),
      word_of_int w]"

definition digest_bytes ::
  "int \<times> int \<times> int \<times> int \<times> int \<times> int \<times> int \<times> int \<Rightarrow> byte list" where
  "digest_bytes s =
     (case s of (a, b, c, d, e, f, g, h) \<Rightarrow> concat (map bytes_of_u32 [a, b, c, d, e, f, g, h]))"

definition sha256 :: "byte list \<Rightarrow> byte list" where
  "sha256 m =
     (let p = pad m
      in digest_bytes (foldl compress H256 (chunks (length p div 64) (be32 p))))"

definition hexdigit :: "nat \<Rightarrow> char" where
  "hexdigit n = ''0123456789abcdef'' ! n"

definition hexdigest :: "byte list \<Rightarrow> string" where
  "hexdigest bs = concat (map (\<lambda>b. [hexdigit (unat b div 16), hexdigit (unat b mod 16)]) bs)"

text \<open>
  HMAC-SHA256 as RFC 2104 defines it, for comparison with what \<^verbatim>\<open>create_signature\<close>
  computes: the key is hashed when longer than a block, padded with zeros to 64
  bytes, and the message is hashed twice under the inner and outer pads.
\<close>

definition hmac_sha256 :: "byte list \<Rightarrow> byte list \<Rightarrow> byte list" where
  "hmac_sha256 key msg =
     (let k0 = (if length key > 64 then sha256 key else key);
          k = k0 @ replicate (64 - length k0) 0
      in sha256 (map (\<lambda>b. b XOR 0x5c) k @ sha256 (map (\<lambda>b. b XOR 0x36) k @ msg)))"

text \<open>
  \<^verbatim>\<open>str.encode('utf-8')\<close> on code points 0..255: one byte below 128, two bytes from
  128 on.
\<close>

definition utf8_char :: "char \<Rightarrow> byte list" where
  "utf8_char c =
     (let n = (of_char c :: nat)
      in if n < 128 then [of_nat n] else [of_nat (192 + n div 64), of_nat (128 + n mod 64)])"

definition utf8 :: "string \<Rightarrow> byte list" where
  "utf8 x = concat (map utf8_char x)"

definition squote :: char where
  "squote = CHR 0x27"

definition dquote :: char where
  "dquote = CHR 0x22"

fun type_name :: "pyval \<Rightarrow> string" where
  "type_name PNone = ''NoneType''"
| "type_name (PBool _) = ''bool''"
| "type_name (PInt _) = ''int''"
| "type_name (PStr _) = ''str''"
| "type_name (PBytes _) = ''bytes''"
| "type_name (PList _) = ''list''"
| "type_name (PDict _) = ''dict''"

text \<open>\<^verbatim>\<open>x.encode('utf-8')\<close>: only a \<^verbatim>\<open>str\<close> has the method.\<close>

fun py_encode :: "pyval \<Rightarrow> error + byte list" where
  "py_encode (PStr x) = Inr (utf8 x)"
| "py_encode v =
     Inl (AttributeError
       (squote # type_name v @ squote # '' object has no attribute '' @ squote # ''encode'' @ [squote]))"

text \<open>
  The capabilities the source consumes: \<open>transport k\<close> is what the \<open>k\<close>-th call of
  \<^verbatim>\<open>requests.post\<close> of one send does (the URL and the request attributes are fixed
  before the loop); \<open>dumps\<close> is \<^verbatim>\<open>json.dumps(_, cls=StandardJSONEncoder)\<close>;
  \<open>encode_params\<close> is \<^verbatim>\<open>requests.PreparedRequest()._encode_params\<close>.
\<close>

record env =
  transport :: "nat \<Rightarrow> post_result"
  dumps :: "pyval \<Rightarrow> error + string"
  encode_params :: "pyval \<Rightarrow> pyval"

text \<open>
  \<^verbatim>\<open>create_signature(payload, secret)\<close>: the hash object is created over the secret
  and updated with the payload, so the digest is that of the secret followed by the
  payload.
\<close>

definition create_signature :: "env \<Rightarrow> pyval \<Rightarrow> pyval \<Rightarrow> error + string" where
  "create_signature env payload secret =
     (case (case secret of PBytes b \<Rightarrow> Inr b | _ \<Rightarrow> py_encode secret) of
        Inl e \<Rightarrow> Inl e
      | Inr secret_bytes \<Rightarrow>
          (let payload1 = (case payload of PStr _ \<Rightarrow> payload | _ \<Rightarrow> encode_params env payload)
           in case (case payload1 of PBytes b \<Rightarrow> Inr b | _ \<Rightarrow> py_encode payload1) of
                Inl e \<Rightarrow> Inl e
              | Inr payload_bytes \<Rightarrow>
                  Inr (''sha256='' @ hexdigest (sha256 (secret_bytes @ payload_bytes)))))"

section \<open>The payload (lines 78-99)\<close>

definition get_payload :: "sender \<Rightarrow> error + payload" where
  "get_payload s = wrapped s (args s) (kwargs s)"

definition jsonify_payload :: "env \<Rightarrow> payload \<Rightarrow> error + pyval" where
  "jsonify_payload env p =
     (case p of
        PayStr x \<Rightarrow> Inr (PStr x)
      | PayDict m \<Rightarrow> (case dumps env (PDict m) of Inl e \<Rightarrow> Inl e | Inr j \<Rightarrow> Inr (PStr j)))"

definition format_payload :: "env \<Rightarrow> sender \<Rightarrow> error + pyval" where
  "format_payload env s =
     (case get_encoding s of
        Inl e \<Rightarrow> Inl e
      | Inr enc \<Rightarrow>
          (case get_payload s of
             Inl e \<Rightarrow> Inl e
           | Inr p \<Rightarrow>
               if enc = PStr EncodingType_JSON then jsonify_payload env p
               else Inr (payload_value p)))"

section \<open>The send operation (lines 110-196)\<close>

text \<open>
  What a send does to the world, in order: a \<open>Post\<close> for each call of
  \<^verbatim>\<open>requests.post\<close> (with the URL) and a \<open>Sleep\<close> for each call of
  \<^verbatim>\<open>sleep\<close> (with its argument). The log lines and the \<^verbatim>\<open>print\<close> of the URL are
  not recorded.
\<close>

datatype event = Post pyval | Sleep nat

text \<open>The state the loop works on: the object, \<^verbatim>\<open>sending_metadata\<close>, the events so far.\<close>

record run =
  self :: sender
  sending_metadata :: "string \<Rightarrow> pyval option"
  events :: "event list"

text \<open>What lines 117-131 compute before the loop.\<close>

record prepared =
  payload :: payload
  timeout :: pyval
  headers :: "string \<Rightarrow> pyval option"
  data :: pyval

text \<open>
  \<^verbatim>\<open>post_attributes['headers'][key] = v\<close>: item assignment works on a \<^verbatim>\<open>dict\<close> and
  raises \<^verbatim>\<open>TypeError\<close> on the other kinds of value.
\<close>

fun setitem :: "pyval \<Rightarrow> string \<Rightarrow> pyval \<Rightarrow> error + (string \<Rightarrow> pyval option)" where
  "setitem (PDict m) k v = Inr (m(k \<mapsto> v))"
| "setitem (PList xs) k v = Inl (TypeError ''list indices must be integers or slices, not str'')"
| "setitem x k v =
     Inl (TypeError (squote # type_name x @ squote # '' object does not support item assignment''))"

definition prepare :: "env \<Rightarrow> sender \<Rightarrow> error + prepared" where
  "prepare env s =
     (case get_payload s of Inl e \<Rightarrow> Inl e | Inr p \<Rightarrow>
      case get_timeout s of Inl e \<Rightarrow> Inl e | Inr t \<Rightarrow>
      case get_custom_headers s of Inl e \<Rightarrow> Inl e | Inr custom_headers \<Rightarrow>
      let headers0 = (if truthy custom_headers then custom_headers else PDict Map.empty) in
      case get_encoding s of Inl e \<Rightarrow> Inl e | Inr enc \<Rightarrow>
      case setitem headers0 ''Content-Type'' enc of Inl e \<Rightarrow> Inl e | Inr headers1 \<Rightarrow>
      case format_payload env s of Inl e \<Rightarrow> Inl e | Inr d \<Rightarrow>
      case get_signing_secret s of Inl e \<Rightarrow> Inl e | Inr signing_secret \<Rightarrow>
      if truthy signing_secret
      then (case create_signature env d signing_secret of
              Inl e \<Rightarrow> Inl e
            | Inr sig \<Rightarrow>
                Inr \<lparr>payload = p, timeout = t, headers = headers1(''x-hub-signature'' \<mapsto> PStr sig),
                     data = d\<rparr>)
      else Inr \<lparr>payload = p, timeout = t, headers = headers1, data = d\<rparr>)"

text \<open>The \<^verbatim>\<open>except Exception\<close> handler (lines 164-167).\<close>

definition failure_body :: "string \<Rightarrow> string" where
  "failure_body err =
     ''{'' @ dquote # ''status_code'' @ dquote # '': 500, '' @ dquote # ''status'' @ dquote # '':''
       @ dquote # ''failure'' @ dquote # '','' @ dquote # ''error'' @ dquote # '':'' @ dquote # err
       @ dquote # ''}''"

text \<open>\<^verbatim>\<open>str(ex).replace('"', "'")\<close>.\<close>

definition replace_dquote :: "string \<Rightarrow> string" where
  "replace_dquote msg = map (\<lambda>c. if c = dquote then squote else c) msg"

definition on_exception :: "string \<Rightarrow> run \<Rightarrow> run" where
  "on_exception msg r =
     (let err_formatted = replace_dquote msg
      in r\<lparr>sending_metadata := (sending_metadata r)(''response'' \<mapsto> PStr (failure_body err_formatted)),
            self := (self r)\<lparr>error := Some err_formatted\<rparr>\<rparr>)"

text \<open>\<^verbatim>\<open>"%d" % n\<close>.\<close>

fun dec_nat :: "nat \<Rightarrow> string" where
  "dec_nat n = (if n < 10 then [''0123456789'' ! n] else dec_nat (n div 10) @ [''0123456789'' ! (n mod 10)])"

definition dec_int :: "int \<Rightarrow> string" where
  "dec_int i = (if i < 0 then CHR ''-'' # dec_nat (nat (- i)) else dec_nat (nat i))"

definition status_error :: "response \<Rightarrow> string" where
  "status_error resp =
     ''Status code ('' @ dec_int (status_code resp) @ ''). Message: '' @ response_text resp"

text \<open>
  The body of the \<^verbatim>\<open>try\<close> with its handler (lines 138-167). The flag is \<open>True\<close>
  when the body ends in \<^verbatim>\<open>break\<close>. \<^verbatim>\<open>self.url\<close> is read inside the \<^verbatim>\<open>try\<close>, so
  a missing URL raises there and is handled like any other exception.
\<close>

definition try_body :: "env \<Rightarrow> run \<Rightarrow> bool \<times> run" where
  "try_body env r =
     (case get_url (self r) of
        Inl e \<Rightarrow> (False, on_exception (str_of_error e) r)
      | Inr url \<Rightarrow>
          (let r1 = r\<lparr>events := events r @ [Post url]\<rparr>
           in case transport env (attempt (self r1)) of
                Raises msg \<Rightarrow> (False, on_exception msg r1)
              | Returns resp \<Rightarrow>
                  (let r2 = r1\<lparr>self := (self r1)\<lparr>response := Some resp\<rparr>\<rparr>
                   in case content_utf8 resp of
                        Inl msg \<Rightarrow> (False, on_exception msg r2)
                      | Inr response_content \<Rightarrow>
                          (let r3 = r2\<lparr>sending_metadata :=
                                 (sending_metadata r2)(''status_code'' \<mapsto> PInt (status_code resp))\<rparr>
                           in if 200 \<le> status_code resp \<and> status_code resp < 300
                              then (True, r3\<lparr>sending_metadata :=
                                     (sending_metadata r3)(''response'' \<mapsto> PStr response_content,
                                                           ''success'' \<mapsto> PBool True)\<rparr>)
                              else (False, r3\<lparr>self := (self r3)\<lparr>error := Some (status_error resp)\<rparr>\<rparr>)))))"

text \<open>
  One pass through the body of the \<^verbatim>\<open>for\<close> loop (lines 135-183) for the pair
  \<open>(i, wait)\<close>; the flag is \<open>True\<close> when the pass ends in \<^verbatim>\<open>break\<close>. After a failed
  attempt that is not the last one the body sleeps for \<open>wait\<close>.
\<close>

definition loop_body :: "env \<Rightarrow> nat \<times> nat \<Rightarrow> run \<Rightarrow> bool \<times> run" where
  "loop_body env iw r =
     (let i = fst iw; wait = snd iw;
          r1 = r\<lparr>self := (self r)\<lparr>attempt := i + 1\<rparr>\<rparr>;
          r2 = r1\<lparr>sending_metadata :=
                 (sending_metadata r1)(''attempt'' \<mapsto> PInt (int (attempt (self r1))))\<rparr>
      in case try_body env r2 of
           (True, r3) \<Rightarrow> (True, r3)
         | (False, r3) \<Rightarrow>
             if int (attempt (self r3)) = int (length (attempts (self r3))) - 1
             then (False, r3)
             else (False, r3\<lparr>events := events r3 @ [Sleep wait]\<rparr>))"

text \<open>
  The \<^verbatim>\<open>for i, wait in enumerate(range(len(self.attempts) - 1))\<close> loop over the list
  of pairs it enumerates. \<open>wait\<close> is the element of the range, not an element of
  \<open>attempts\<close>.
\<close>

fun send_loop :: "env \<Rightarrow> (nat \<times> nat) list \<Rightarrow> run \<Rightarrow> run" where
  "send_loop env [] r = r"
| "send_loop env (iw # rest) r =
     (case loop_body env iw r of
        (True, r') \<Rightarrow> r'
      | (False, r') \<Rightarrow> send_loop env rest r')"

text \<open>\<^verbatim>\<open>enumerate(range(len(self.attempts) - 1))\<close>; a negative bound gives the empty range.\<close>

definition iterations :: "sender \<Rightarrow> (nat \<times> nat) list" where
  "iterations s = enumerate 0 [0..<nat (int (length (attempts s)) - 1)]"

text \<open>
  Lines 188-193: a string payload is wrapped into a mapping, and a hash value that is
  not \<^verbatim>\<open>None\<close> and not empty is stored in it under \<^verbatim>\<open>'hash'\<close>.
\<close>

definition payload_dict :: "payload \<Rightarrow> (string \<Rightarrow> pyval option)" where
  "payload_dict p = (case p of PayStr x \<Rightarrow> [''payload'' \<mapsto> PStr x] | PayDict m \<Rightarrow> m)"

definition add_hash :: "string option \<Rightarrow> (string \<Rightarrow> pyval option) \<Rightarrow> (string \<Rightarrow> pyval option)" where
  "add_hash h m = (case h of None \<Rightarrow> m | Some x \<Rightarrow> if length x > 0 then m(''hash'' \<mapsto> PStr x) else m)"

text \<open>
  Lines 185-196. With form encoding and a mapping payload, \<^verbatim>\<open>post_attributes['data']\<close>
  is the payload object itself, so the \<^verbatim>\<open>'hash'\<close> stored into the payload at line 193
  shows in the returned \<^verbatim>\<open>post_attributes\<close> too; a string is never changed.
\<close>

definition report :: "prepared \<Rightarrow> run \<Rightarrow> (string \<Rightarrow> pyval option)" where
  "report p r =
     (let success = (case sending_metadata r ''success'' of Some v \<Rightarrow> truthy v | None \<Rightarrow> False);
          err = (case error (self r) of
                   None \<Rightarrow> PNone
                 | Some e \<Rightarrow> if success \<or> e = [] then PNone else PStr e);
          payload1 = add_hash (hash_value (self r)) (payload_dict (payload p));
          data1 = (case data p of PDict _ \<Rightarrow> PDict payload1 | d \<Rightarrow> d);
          post_attributes =
            PDict [''timeout'' \<mapsto> timeout p, ''headers'' \<mapsto> PDict (headers p), ''data'' \<mapsto> data1];
          merged_dict = (sending_metadata r)(''error'' \<mapsto> err, ''post_attributes'' \<mapsto> post_attributes)
      in merged_dict ++ payload1)"

text \<open>
  \<^verbatim>\<open>_send\<close>: the final state of the run (the object and the events) with either the
  exception that left the method or the mapping it returned. An exception can only
  leave before the loop.
\<close>

definition priv_send :: "env \<Rightarrow> sender \<Rightarrow> run \<times> (error + (string \<Rightarrow> pyval option))" where
  "priv_send env s =
     (let r0 = \<lparr>self = s, sending_metadata = [''success'' \<mapsto> PBool False], events = []\<rparr>
      in case prepare env s of
           Inl e \<Rightarrow> (r0, Inl e)
         | Inr p \<Rightarrow> (let r = send_loop env (iterations s) r0 in (r, Inr (report p r))))"

definition send :: "env \<Rightarrow> sender \<Rightarrow> run \<times> (error + (string \<Rightarrow> pyval option))" where
  "send env s = priv_send env s"

section \<open>Reading a run\<close>

text \<open>The value a returned mapping holds under a key, or the exception.\<close>

definition outcome_key ::
  "run \<times> (error + (string \<Rightarrow> pyval option)) \<Rightarrow> string \<Rightarrow> error + pyval option" where
  "outcome_key res k = (case snd res of Inl e \<Rightarrow> Inl e | Inr out \<Rightarrow> Inr (out k))"

definition posts :: "event list \<Rightarrow> nat" where
  "posts es = length (filter (\<lambda>e. case e of Post _ \<Rightarrow> True | Sleep _ \<Rightarrow> False) es)"

definition sleeps :: "event list \<Rightarrow> nat list" where
  "sleeps es = concat (map (\<lambda>e. case e of Post _ \<Rightarrow> [] | Sleep d \<Rightarrow> [d]) es)"

text \<open>
  The error message an attempt leaves in \<^verbatim>\<open>self.error\<close> when the call of
  \<^verbatim>\<open>requests.post\<close> ends as \<open>res\<close>: \<open>None\<close> for a response with a status from 200
  to 299 whose content decodes, the message of the failure otherwise.
\<close>

definition failure_message :: "post_result \<Rightarrow> string option" where
  "failure_message res =
     (case res of
        Raises msg \<Rightarrow> Some (replace_dquote msg)
      | Returns resp \<Rightarrow>
          (case content_utf8 resp of
             Inl msg \<Rightarrow> Some (replace_dquote msg)
           | Inr _ \<Rightarrow>
               if 200 \<le> status_code resp \<and> status_code resp < 300 then None
               else Some (status_error resp)))"

text \<open>
  The fields \<^verbatim>\<open>__init__\<close> receives are never assigned again; \<open>same_request\<close> says
  two states of the object agree on them. \<open>failed_pass u n j\<close> is what a pass with
  index \<open>j\<close> that does not succeed does to the world, for a schedule of length \<open>n\<close>.
\<close>

definition same_request :: "sender \<Rightarrow> sender \<Rightarrow> bool" where
  "same_request s s' \<longleftrightarrow>
     wrapped s' = wrapped s \<and> dkwargs s' = dkwargs s \<and> hash_value s' = hash_value s
     \<and> attempts s' = attempts s \<and> args s' = args s \<and> kwargs s' = kwargs s"

definition failed_pass :: "pyval \<Rightarrow> nat \<Rightarrow> nat \<Rightarrow> event list" where
  "failed_pass u n j = Post u # (if int (Suc j) = int n - 1 then [] else [Sleep j])"

text \<open>The state in which \<^verbatim>\<open>_send\<close> enters its loop (line 118).\<close>

definition initial_run :: "sender \<Rightarrow> run" where
  "initial_run s = \<lparr>self = s, sending_metadata = [''success'' \<mapsto> PBool False], events = []\<rparr>"

section \<open>Example inputs\<close>

text \<open>
  Concrete requests and transports for the closed theorems below: a URL and the JSON
  encoding as keyword arguments, a payload function that returns a fixed payload,
  an encoder that returns a given JSON text, and transports that answer 500 then 200, always raise, or answer 200 with a body
  whose \<^verbatim>\<open>text\<close> (decoded as ISO-8859-1, the default of requests for a
  \<^verbatim>\<open>text/*\<close> type without a charset) differs from its UTF-8 decoding.
  \<open>example_body\<close> is the JSON text of the mapping with the one key \<open>a\<close> and value 1.
\<close>

definition example_url :: pyval where
  "example_url = PStr ''http://localhost/hook''"

definition example_kwargs :: "string \<Rightarrow> pyval option" where
  "example_kwargs = [''url'' \<mapsto> example_url, ''encoding'' \<mapsto> PStr ''application/json'']"

definition example_sender :: "payload \<Rightarrow> string option \<Rightarrow> nat list \<Rightarrow> sender" where
  "example_sender p h att = Senderable (\<lambda>a k. Inr p) Map.empty h att [] example_kwargs"

definition example_sender_no_url :: "nat list \<Rightarrow> sender" where
  "example_sender_no_url att =
     Senderable (\<lambda>a k. Inr (PayStr ''raw'')) Map.empty None att []
       [''encoding'' \<mapsto> PStr ''application/json'']"

definition example_body :: string where
  "example_body = ''{'' @ dquote # ''a'' @ dquote # '':1}''"

definition example_env :: "(nat \<Rightarrow> post_result) \<Rightarrow> string \<Rightarrow> env" where
  "example_env t j = \<lparr>transport = t, dumps = (\<lambda>v. Inr j), encode_params = (\<lambda>v. PStr ''x=1'')\<rparr>"

definition status_500_then_200 :: "nat \<Rightarrow> post_result" where
  "status_500_then_200 k =
     (if k = 1
      then Returns \<lparr>status_code = 500, response_text = ''fail'', content_utf8 = Inr ''fail''\<rparr>
      else Returns \<lparr>status_code = 200, response_text = ''OK'', content_utf8 = Inr ''OK''\<rparr>)"

definition always_raises :: "string \<Rightarrow> nat \<Rightarrow> post_result" where
  "always_raises msg k = Raises msg"

definition latin1_reply :: "nat \<Rightarrow> post_result" where
  "latin1_reply k =
     Returns \<lparr>status_code = 200, response_text = [CHR 0xC3, CHR 0xA9], content_utf8 = Inr [CHR 0xE9]\<rparr>"

section \<open>Configuration: the timeout and the encoding\<close>

declare dec_nat.simps [simp del]

lemma priv_value_in_optional: "\<exists>v. priv_value_in key False dk kw = Inr v"
  by (simp add: priv_value_in_def split: option.splits)

text \<open>
  Claim C9. The timeout resolves to the default 5 when the key is in neither source,
  and also for every supplied value that Python counts as false; an explicit
  timeout of 0 resolves to 5.
\<close>

theorem get_timeout_falsy_default:
  "(kwargs s ''timeout'' = None \<and> dkwargs s ''timeout'' = None \<longrightarrow> get_timeout s = Inr (PInt 5))
   \<and> (\<forall>v. priv_value_in ''timeout'' False (dkwargs s) (kwargs s) = Inr v \<and> \<not> truthy v
          \<longrightarrow> get_timeout s = Inr (PInt 5))
   \<and> (kwargs s ''timeout'' = Some (PInt 0) \<longrightarrow> get_timeout s = Inr (PInt 5))"
  by (simp add: get_timeout_def priv_value_in_def priv_default_timeout_def)

text \<open>
  The three cases at concrete senders: a timeout of 0, no timeout at all, and an empty
  string as timeout.
\<close>

theorem get_timeout_falsy_default_witness:
  "kwargs (Senderable (\<lambda>a k. Inr (PayStr ''x'')) Map.empty None [0, 0] [] [''timeout'' \<mapsto> PInt 0]) ''timeout''
      = Some (PInt 0)
   \<and> get_timeout (Senderable (\<lambda>a k. Inr (PayStr ''x'')) Map.empty None [0, 0] [] [''timeout'' \<mapsto> PInt 0])
      = Inr (PInt 5)
   \<and> kwargs (Senderable (\<lambda>a k. Inr (PayStr ''x'')) Map.empty None [0, 0] [] Map.empty) ''timeout'' = None
   \<and> dkwargs (Senderable (\<lambda>a k. Inr (PayStr ''x'')) Map.empty None [0, 0] [] Map.empty) ''timeout'' = None
   \<and> get_timeout (Senderable (\<lambda>a k. Inr (PayStr ''x'')) Map.empty None [0, 0] [] Map.empty) = Inr (PInt 5)
   \<and> priv_value_in ''timeout'' False Map.empty [''timeout'' \<mapsto> PStr []] = Inr (PStr [])
   \<and> \<not> truthy (PStr [])
   \<and> get_timeout (Senderable (\<lambda>a k. Inr (PayStr ''x'')) Map.empty None [0, 0] [] [''timeout'' \<mapsto> PStr []])
      = Inr (PInt 5)"
  using get_timeout_falsy_default
          [of "Senderable (\<lambda>a k. Inr (PayStr ''x'')) Map.empty None [0, 0] [] [''timeout'' \<mapsto> PInt 0]"]
        get_timeout_falsy_default
          [of "Senderable (\<lambda>a k. Inr (PayStr ''x'')) Map.empty None [0, 0] [] Map.empty"]
        get_timeout_falsy_default
          [of "Senderable (\<lambda>a k. Inr (PayStr ''x'')) Map.empty None [0, 0] [] [''timeout'' \<mapsto> PStr []]"]
  by (simp add: Senderable_def priv_value_in_def)

text \<open>
  Claim C4 as stated fails when the key is in neither source: the required lookup
  raises first, with its own message, which names no valid choice.
\<close>

theorem get_encoding_absent_counterexample:
  "get_encoding (Senderable (\<lambda>a k. Inr (PayStr ''x'')) Map.empty None [0, 0] [] Map.empty)
     = Inl (TypeError ''Sender function needs a encoding argument'')
   \<and> get_encoding (Senderable (\<lambda>a k. Inr (PayStr ''x'')) Map.empty None [0, 0] [] Map.empty)
     \<noteq> Inl (TypeError invalid_encoding_msg)"
  by (simp add: get_encoding_def priv_value_in_def Senderable_def invalid_encoding_msg_def)

text \<open>
  Claim C4, amended. Resolving the encoding fails with the error that names the two
  valid choices whenever the key is present in either source with a value other than
  the two MIME strings; when the key is in neither source it fails with the missing
  argument error; and it returns the value when it is one of the two.
\<close>

theorem get_encoding_failures:
  "(kwargs s ''encoding'' = None \<and> dkwargs s ''encoding'' = None
      \<longrightarrow> get_encoding s = Inl (TypeError ''Sender function needs a encoding argument''))
   \<and> (\<forall>v. priv_value_in ''encoding'' True (dkwargs s) (kwargs s) = Inr v
            \<and> v \<noteq> PStr ''application/json'' \<and> v \<noteq> PStr ''application/x-www-form-urlencoded''
          \<longrightarrow> get_encoding s = Inl (TypeError invalid_encoding_msg))
   \<and> (\<forall>v. priv_value_in ''encoding'' True (dkwargs s) (kwargs s) = Inr v
            \<and> (v = PStr ''application/json'' \<or> v = PStr ''application/x-www-form-urlencoded'')
          \<longrightarrow> get_encoding s = Inr v)
   \<and> (\<exists>a b c. invalid_encoding_msg
          = a @ ''application/x-www-form-urlencoded'' @ b @ ''application/json'' @ c)"
proof -
  have names: "\<exists>a b c. invalid_encoding_msg
          = a @ ''application/x-www-form-urlencoded'' @ b @ ''application/json'' @ c"
    unfolding invalid_encoding_msg_def EncodingType_FORMS_def EncodingType_JSON_def
    by (metis append.assoc)
  show ?thesis
    using names
    by (auto simp: get_encoding_def priv_value_in_def EncodingType_FORMS_def EncodingType_JSON_def
             split: option.splits)
qed

text \<open>
  The cases at concrete senders: no encoding, \<^verbatim>\<open>text/plain\<close> among the defaults,
  \<^verbatim>\<open>None\<close> as keyword argument, and the JSON encoding.
\<close>

theorem get_encoding_failures_witness:
  "get_encoding (Senderable (\<lambda>a k. Inr (PayStr ''x'')) Map.empty None [0, 0] [] Map.empty)
     = Inl (TypeError ''Sender function needs a encoding argument'')
   \<and> priv_value_in ''encoding'' True [''encoding'' \<mapsto> PStr ''text/plain''] Map.empty = Inr (PStr ''text/plain'')
   \<and> get_encoding (Senderable (\<lambda>a k. Inr (PayStr ''x'')) [''encoding'' \<mapsto> PStr ''text/plain''] None [0, 0] []
        Map.empty) = Inl (TypeError invalid_encoding_msg)
   \<and> priv_value_in ''encoding'' True Map.empty [''encoding'' \<mapsto> PNone] = Inr PNone
   \<and> get_encoding (Senderable (\<lambda>a k. Inr (PayStr ''x'')) Map.empty None [0, 0] [] [''encoding'' \<mapsto> PNone])
        = Inl (TypeError invalid_encoding_msg)
   \<and> priv_value_in ''encoding'' True Map.empty [''encoding'' \<mapsto> PStr ''application/json'']
        = Inr (PStr ''application/json'')
   \<and> get_encoding (Senderable (\<lambda>a k. Inr (PayStr ''x'')) Map.empty None [0, 0] []
        [''encoding'' \<mapsto> PStr ''application/json'']) = Inr (PStr ''application/json'')"
  using get_encoding_failures
          [of "Senderable (\<lambda>a k. Inr (PayStr ''x'')) Map.empty None [0, 0] [] Map.empty"]
        get_encoding_failures
          [of "Senderable (\<lambda>a k. Inr (PayStr ''x'')) [''encoding'' \<mapsto> PStr ''text/plain''] None [0, 0] []
                 Map.empty"]
        get_encoding_failures
          [of "Senderable (\<lambda>a k. Inr (PayStr ''x'')) Map.empty None [0, 0] [] [''encoding'' \<mapsto> PNone]"]
        get_encoding_failures
          [of "Senderable (\<lambda>a k. Inr (PayStr ''x'')) Map.empty None [0, 0] []
                 [''encoding'' \<mapsto> PStr ''application/json'']"]
  by (simp add: Senderable_def priv_value_in_def)

section \<open>The delivery loop\<close>

lemma same_request_refl: "same_request s s"
  by (simp add: same_request_def)

lemma same_request_trans: "same_request a b \<Longrightarrow> same_request b c \<Longrightarrow> same_request a c"
  by (simp add: same_request_def)

lemma get_url_same: "same_request s s' \<Longrightarrow> get_url s' = get_url s"
  by (simp add: same_request_def get_url_def)

lemma iterations_map: "iterations s = map (\<lambda>j. (j, j)) [0..<length (attempts s) - 1]"
proof -
  have "nat (int (length (attempts s)) - 1) = length (attempts s) - 1" by simp
  then show ?thesis
    by (simp add: iterations_def enumerate_eq_zip zip_same_conv_map)
qed

lemma try_body_failure:
  assumes "get_url (self r) = Inr u"
    and "failure_message (transport env (attempt (self r))) = Some m"
  shows "\<exists>r'. try_body env r = (False, r') \<and> same_request (self r) (self r')
           \<and> attempt (self r') = attempt (self r) \<and> error (self r') = Some m
           \<and> events r' = events r @ [Post u]
           \<and> sending_metadata r' ''success'' = sending_metadata r ''success''
           \<and> sending_metadata r' ''attempt'' = sending_metadata r ''attempt''"
  using assms
  by (auto simp: try_body_def failure_message_def on_exception_def Let_def same_request_def
           split: post_result.splits sum.splits if_splits)

lemma try_body_success:
  assumes "get_url (self r) = Inr u"
    and "transport env (attempt (self r)) = Returns resp"
    and "content_utf8 resp = Inr c"
    and "200 \<le> status_code resp" and "status_code resp < 300"
  shows "\<exists>r'. try_body env r = (True, r') \<and> same_request (self r) (self r')
           \<and> attempt (self r') = attempt (self r) \<and> error (self r') = error (self r)
           \<and> events r' = events r @ [Post u]
           \<and> sending_metadata r' ''success'' = Some (PBool True)
           \<and> sending_metadata r' ''response'' = Some (PStr c)
           \<and> sending_metadata r' ''status_code'' = Some (PInt (status_code resp))
           \<and> sending_metadata r' ''attempt'' = sending_metadata r ''attempt''"
  using assms
  by (auto simp: try_body_def Let_def same_request_def)

lemma loop_body_failure:
  assumes "get_url (self r) = Inr u"
    and "failure_message (transport env (Suc i)) = Some m"
  shows "\<exists>r'. loop_body env (i, w) r = (False, r') \<and> same_request (self r) (self r')
           \<and> attempt (self r') = Suc i \<and> error (self r') = Some m
           \<and> events r' = events r @ Post u
                 # (if int (Suc i) = int (length (attempts (self r))) - 1 then [] else [Sleep w])
           \<and> sending_metadata r' ''success'' = sending_metadata r ''success''
           \<and> sending_metadata r' ''attempt'' = Some (PInt (int (Suc i)))"
proof -
  define r2 where
    "r2 = r\<lparr>self := (self r)\<lparr>attempt := i + 1\<rparr>,
            sending_metadata := (sending_metadata r)(''attempt'' \<mapsto> PInt (int (i + 1)))\<rparr>"
  have u2: "get_url (self r2) = Inr u"
    using assms(1) by (simp add: r2_def get_url_def)
  have m2: "failure_message (transport env (attempt (self r2))) = Some m"
    using assms(2) by (simp add: r2_def)
  obtain r3 where r3: "try_body env r2 = (False, r3)" "same_request (self r2) (self r3)"
      "attempt (self r3) = attempt (self r2)" "error (self r3) = Some m"
      "events r3 = events r2 @ [Post u]"
      "sending_metadata r3 ''success'' = sending_metadata r2 ''success''"
      "sending_metadata r3 ''attempt'' = sending_metadata r2 ''attempt''"
    using try_body_failure [OF u2 m2] by blast
  have body: "loop_body env (i, w) r =
      (if int (attempt (self r3)) = int (length (attempts (self r3))) - 1
       then (False, r3) else (False, r3\<lparr>events := events r3 @ [Sleep w]\<rparr>))"
    using r3(1) by (simp add: loop_body_def r2_def Let_def)
  have att: "attempts (self r3) = attempts (self r)"
    using r3(2) by (simp add: same_request_def r2_def)
  have same: "same_request (self r) (self r3)"
    using r3(2) by (simp add: same_request_def r2_def)
  show ?thesis
    using body r3 att same
    by (cases "int (attempt (self r3)) = int (length (attempts (self r3))) - 1")
       (auto simp: r2_def)
qed

lemma loop_body_success:
  assumes "get_url (self r) = Inr u"
    and "transport env (Suc i) = Returns resp"
    and "content_utf8 resp = Inr c"
    and "200 \<le> status_code resp" and "status_code resp < 300"
  shows "\<exists>r'. loop_body env (i, w) r = (True, r') \<and> same_request (self r) (self r')
           \<and> attempt (self r') = Suc i \<and> error (self r') = error (self r)
           \<and> events r' = events r @ [Post u]
           \<and> sending_metadata r' ''success'' = Some (PBool True)
           \<and> sending_metadata r' ''response'' = Some (PStr c)
           \<and> sending_metadata r' ''status_code'' = Some (PInt (status_code resp))
           \<and> sending_metadata r' ''attempt'' = Some (PInt (int (Suc i)))"
proof -
  define r2 where
    "r2 = r\<lparr>self := (self r)\<lparr>attempt := i + 1\<rparr>,
            sending_metadata := (sending_metadata r)(''attempt'' \<mapsto> PInt (int (i + 1)))\<rparr>"
  have u2: "get_url (self r2) = Inr u"
    using assms(1) by (simp add: r2_def get_url_def)
  have t2: "transport env (attempt (self r2)) = Returns resp"
    using assms(2) by (simp add: r2_def)
  obtain r3 where r3: "try_body env r2 = (True, r3)" "same_request (self r2) (self r3)"
      "attempt (self r3) = attempt (self r2)" "error (self r3) = error (self r2)"
      "events r3 = events r2 @ [Post u]"
      "sending_metadata r3 ''success'' = Some (PBool True)"
      "sending_metadata r3 ''response'' = Some (PStr c)"
      "sending_metadata r3 ''status_code'' = Some (PInt (status_code resp))"
      "sending_metadata r3 ''attempt'' = sending_metadata r2 ''attempt''"
    using try_body_success [OF u2 t2 assms(3) assms(4) assms(5)] by blast
  have body: "loop_body env (i, w) r = (True, r3)"
    using r3(1) by (simp add: loop_body_def r2_def Let_def)
  have same: "same_request (self r) (self r3)"
    using r3(2) by (simp add: same_request_def r2_def)
  show ?thesis
    using body r3 same by (auto simp: r2_def)
qed

text \<open>Every pass makes at most one call of the transport.\<close>

lemma try_body_posts: "posts (events (snd (try_body env r))) \<le> Suc (posts (events r))"
  by (auto simp: try_body_def on_exception_def posts_def Let_def
           split: post_result.splits sum.splits)

lemma loop_body_posts: "posts (events (snd (loop_body env iw r))) \<le> Suc (posts (events r))"
proof -
  define r2 where
    "r2 = r\<lparr>self := (self r)\<lparr>attempt := fst iw + 1\<rparr>,
            sending_metadata := (sending_metadata r)(''attempt'' \<mapsto> PInt (int (fst iw + 1)))\<rparr>"
  have "posts (events (snd (try_body env r2))) \<le> Suc (posts (events r2))"
    by (rule try_body_posts)
  moreover have "events r2 = events r" by (simp add: r2_def)
  moreover have "posts (events (snd (loop_body env iw r))) = posts (events (snd (try_body env r2)))"
    by (cases "try_body env r2")
       (auto simp: loop_body_def r2_def Let_def posts_def split: bool.splits if_splits)
  ultimately show ?thesis by simp
qed

lemma send_loop_posts: "posts (events (send_loop env xs r)) \<le> posts (events r) + length xs"
proof (induction xs arbitrary: r)
  case Nil
  then show ?case by simp
next
  case (Cons iw xs)
  obtain b r' where b: "loop_body env iw r = (b, r')" by (cases "loop_body env iw r")
  have le: "posts (events r') \<le> Suc (posts (events r))"
    using loop_body_posts [of env iw r] b by simp
  show ?case
  proof (cases b)
    case True
    then show ?thesis using b le by simp
  next
    case False
    then have "send_loop env (iw # xs) r = send_loop env xs r'" using b by simp
    then show ?thesis using Cons.IH [of r'] le by simp
  qed
qed

lemma try_body_same: "same_request (self r) (self (snd (try_body env r)))"
  by (auto simp: try_body_def on_exception_def same_request_def Let_def
           split: post_result.splits sum.splits)

lemma loop_body_same: "same_request (self r) (self (snd (loop_body env iw r)))"
proof -
  define r2 where
    "r2 = r\<lparr>self := (self r)\<lparr>attempt := fst iw + 1\<rparr>,
            sending_metadata := (sending_metadata r)(''attempt'' \<mapsto> PInt (int (fst iw + 1)))\<rparr>"
  have "same_request (self r2) (self (snd (try_body env r2)))"
    by (rule try_body_same)
  moreover have "same_request (self r) (self r2)"
    by (simp add: r2_def same_request_def)
  moreover have "self (snd (loop_body env iw r)) = self (snd (try_body env r2))"
    by (cases "try_body env r2")
       (auto simp: loop_body_def r2_def Let_def split: bool.splits if_splits)
  ultimately show ?thesis
    using same_request_trans by metis
qed

lemma send_loop_same: "same_request (self r) (self (send_loop env xs r))"
proof (induction xs arbitrary: r)
  case Nil
  then show ?case by (simp add: same_request_refl)
next
  case (Cons iw xs)
  obtain b r' where b: "loop_body env iw r = (b, r')" by (cases "loop_body env iw r")
  have step: "same_request (self r) (self r')"
    using loop_body_same [of r env iw] b by simp
  show ?case
  proof (cases b)
    case True
    then show ?thesis using b step by simp
  next
    case False
    then have "send_loop env (iw # xs) r = send_loop env xs r'" using b by simp
    then show ?thesis using Cons.IH [of r'] step same_request_trans by metis
  qed
qed

lemma send_loop_failures:
  assumes "get_url (self r) = Inr u"
    and "\<forall>k. i < k \<and> k \<le> n \<longrightarrow> failure_message (transport env k) \<noteq> None"
  shows "events (send_loop env (map (\<lambda>j. (j, j)) [i..<n]) r)
           = events r @ concat (map (failed_pass u (length (attempts (self r)))) [i..<n])
         \<and> sending_metadata (send_loop env (map (\<lambda>j. (j, j)) [i..<n]) r) ''success''
           = sending_metadata r ''success''
         \<and> (i < n \<longrightarrow>
              attempt (self (send_loop env (map (\<lambda>j. (j, j)) [i..<n]) r)) = n
              \<and> error (self (send_loop env (map (\<lambda>j. (j, j)) [i..<n]) r))
                  = failure_message (transport env n)
              \<and> sending_metadata (send_loop env (map (\<lambda>j. (j, j)) [i..<n]) r) ''attempt''
                  = Some (PInt (int n)))"
  using assms
proof (induction "n - i" arbitrary: i r)
  case 0
  then show ?case by simp
next
  case (Suc d)
  then have lt: "i < n" by simp
  then have split: "[i..<n] = i # [Suc i..<n]" by (simp add: upt_conv_Cons)
  obtain m where m: "failure_message (transport env (Suc i)) = Some m"
    using Suc.prems(2) lt by (metis Suc_leI lessI not_None_eq)
  obtain r' where r': "loop_body env (i, i) r = (False, r')" "same_request (self r) (self r')"
      "attempt (self r') = Suc i" "error (self r') = Some m"
      "events r' = events r @ Post u
          # (if int (Suc i) = int (length (attempts (self r))) - 1 then [] else [Sleep i])"
      "sending_metadata r' ''success'' = sending_metadata r ''success''"
      "sending_metadata r' ''attempt'' = Some (PInt (int (Suc i)))"
    using loop_body_failure [OF Suc.prems(1) m, of i] by blast
  have u': "get_url (self r') = Inr u"
    using get_url_same [OF r'(2)] Suc.prems(1) by simp
  have att': "attempts (self r') = attempts (self r)"
    using r'(2) by (simp add: same_request_def)
  have rest: "\<forall>k. Suc i < k \<and> k \<le> n \<longrightarrow> failure_message (transport env k) \<noteq> None"
    using Suc.prems(2) by auto
  have d: "d = n - Suc i" using Suc.hyps(2) by simp
  note IH = Suc.hyps(1) [OF d u' rest]
  have unfold: "send_loop env (map (\<lambda>j. (j, j)) [i..<n]) r
      = send_loop env (map (\<lambda>j. (j, j)) [Suc i..<n]) r'"
    using r'(1) split by simp
  show ?case
  proof (cases "Suc i < n")
    case True
    then show ?thesis
      using IH unfold r' att' split by (simp add: failed_pass_def)
  next
    case False
    then have n: "n = Suc i" using lt by simp
    then show ?thesis
      using unfold r' m by (simp add: failed_pass_def)
  qed
qed

lemma send_loop_first_success:
  assumes "get_url (self r) = Inr u"
    and "i < k" and "k \<le> n"
    and "\<forall>j. i < j \<and> j < k \<longrightarrow> failure_message (transport env j) \<noteq> None"
    and "transport env k = Returns resp"
    and "content_utf8 resp = Inr c"
    and "200 \<le> status_code resp" and "status_code resp < 300"
  shows "events (send_loop env (map (\<lambda>j. (j, j)) [i..<n]) r)
           = events r @ concat (map (failed_pass u (length (attempts (self r)))) [i..<k - 1]) @ [Post u]
         \<and> attempt (self (send_loop env (map (\<lambda>j. (j, j)) [i..<n]) r)) = k
         \<and> sending_metadata (send_loop env (map (\<lambda>j. (j, j)) [i..<n]) r) ''success''
             = Some (PBool True)
         \<and> sending_metadata (send_loop env (map (\<lambda>j. (j, j)) [i..<n]) r) ''response''
             = Some (PStr c)
         \<and> sending_metadata (send_loop env (map (\<lambda>j. (j, j)) [i..<n]) r) ''status_code''
             = Some (PInt (status_code resp))
         \<and> sending_metadata (send_loop env (map (\<lambda>j. (j, j)) [i..<n]) r) ''attempt''
             = Some (PInt (int k))"
  using assms(1,2,4)
proof (induction "k - i" arbitrary: i r)
  case 0
  then show ?case by simp
next
  case (Suc d)
  have lt: "i < n" using Suc.prems(2) assms(3) by simp
  then have split: "[i..<n] = i # [Suc i..<n]" by (simp add: upt_conv_Cons)
  show ?case
  proof (cases "Suc i = k")
    case True
    obtain r' where r': "loop_body env (i, i) r = (True, r')"
        "events r' = events r @ [Post u]" "attempt (self r') = Suc i"
        "sending_metadata r' ''success'' = Some (PBool True)"
        "sending_metadata r' ''response'' = Some (PStr c)"
        "sending_metadata r' ''status_code'' = Some (PInt (status_code resp))"
        "sending_metadata r' ''attempt'' = Some (PInt (int (Suc i)))"
      using loop_body_success [OF Suc.prems(1) _ assms(6) assms(7) assms(8), of env i i]
            assms(5) True by blast
    have "send_loop env (map (\<lambda>j. (j, j)) [i..<n]) r = r'"
      using r'(1) split by simp
    then show ?thesis using r' True by auto
  next
    case False
    then have lt2: "Suc i < k" using Suc.prems(2) by simp
    obtain m where m: "failure_message (transport env (Suc i)) = Some m"
      using Suc.prems(3) lt2 by (metis lessI not_None_eq)
    obtain r' where r': "loop_body env (i, i) r = (False, r')" "same_request (self r) (self r')"
        "events r' = events r @ Post u
            # (if int (Suc i) = int (length (attempts (self r))) - 1 then [] else [Sleep i])"
      using loop_body_failure [OF Suc.prems(1) m, of i] by blast
    have u': "get_url (self r') = Inr u"
      using get_url_same [OF r'(2)] Suc.prems(1) by simp
    have att': "attempts (self r') = attempts (self r)"
      using r'(2) by (simp add: same_request_def)
    have rest: "\<forall>j. Suc i < j \<and> j < k \<longrightarrow> failure_message (transport env j) \<noteq> None"
      using Suc.prems(3) by auto
    have d: "d = k - Suc i" using Suc.hyps(2) by simp
    note IH = Suc.hyps(1) [OF d u' lt2 rest]
    have unfold: "send_loop env (map (\<lambda>j. (j, j)) [i..<n]) r
        = send_loop env (map (\<lambda>j. (j, j)) [Suc i..<n]) r'"
      using r'(1) split by simp
    have split2: "[i..<k - 1] = i # [Suc i..<k - 1]"
      using lt2 by (simp add: upt_conv_Cons)
    show ?thesis
      using IH unfold r' att' split2 by (simp add: failed_pass_def)
  qed
qed

section \<open>The result of a send\<close>

lemma priv_send_prepared:
  "prepare env s = Inr p \<Longrightarrow>
     priv_send env s = (send_loop env (iterations s) (initial_run s),
                        Inr (report p (send_loop env (iterations s) (initial_run s))))"
  by (simp add: priv_send_def initial_run_def Let_def)

lemma priv_send_raises: "prepare env s = Inl e \<Longrightarrow> priv_send env s = (initial_run s, Inl e)"
  by (simp add: priv_send_def initial_run_def Let_def)

lemma prepare_payload: "prepare env s = Inr p \<Longrightarrow> get_payload s = Inr (payload p)"
  by (auto simp: prepare_def Let_def split: sum.splits if_splits)

lemma report_payload_key:
  "add_hash (hash_value (self r)) (payload_dict (payload p)) k = Some v \<Longrightarrow> report p r k = Some v"
  by (simp add: report_def Let_def map_add_def)

lemma report_metadata_key:
  "add_hash (hash_value (self r)) (payload_dict (payload p)) k = None \<Longrightarrow> k \<noteq> ''error''
     \<Longrightarrow> k \<noteq> ''post_attributes'' \<Longrightarrow> report p r k = sending_metadata r k"
  by (simp add: report_def Let_def map_add_def)

lemma report_error_key:
  "add_hash (hash_value (self r)) (payload_dict (payload p)) ''error'' = None \<Longrightarrow>
     report p r ''error''
       = Some (case error (self r) of
                 None \<Rightarrow> PNone
               | Some e \<Rightarrow>
                   if (case sending_metadata r ''success'' of Some v \<Rightarrow> truthy v | None \<Rightarrow> False)
                       \<or> e = []
                   then PNone else PStr e)"
  by (simp add: report_def Let_def map_add_def)

lemma posts_append: "posts (xs @ ys) = posts xs + posts ys"
  by (simp add: posts_def)

lemma sleeps_append: "sleeps (xs @ ys) = sleeps xs @ sleeps ys"
  by (simp add: sleeps_def)

lemma posts_passes: "posts (concat (map (\<lambda>j. [Post u, Sleep j]) [i..<n])) = n - i"
  by (induction n) (auto simp: posts_def)

lemma sleeps_passes: "sleeps (concat (map (\<lambda>j. [Post u, Sleep j]) [i..<n])) = [i..<n]"
  by (induction n) (auto simp: sleeps_def)

lemma failed_passes_before:
  assumes "n \<le> N - 1"
  shows "concat (map (failed_pass u N) [i..<n - 1]) = concat (map (\<lambda>j. [Post u, Sleep j]) [i..<n - 1])"
proof -
  have "map (failed_pass u N) [i..<n - 1] = map (\<lambda>j. [Post u, Sleep j]) [i..<n - 1]"
    using assms by (intro map_cong) (auto simp: failed_pass_def)
  then show ?thesis by (rule arg_cong)
qed

lemma priv_send_posts_bound:
  "posts (events (fst (priv_send env s))) \<le> length (attempts s) - 1"
proof (cases "prepare env s")
  case (Inl e)
  then show ?thesis by (simp add: priv_send_raises initial_run_def posts_def)
next
  case (Inr p)
  have "posts (events (send_loop env (iterations s) (initial_run s)))
          \<le> posts (events (initial_run s)) + length (iterations s)"
    by (rule send_loop_posts)
  then show ?thesis
    using Inr by (simp add: priv_send_prepared initial_run_def posts_def iterations_map)
qed

lemma priv_send_first_success:
  assumes a: "prepare env s = Inr p \<and> get_url s = Inr u
         \<and> 1 \<le> k \<and> k \<le> length (attempts s) - 1
         \<and> (\<forall>j. 1 \<le> j \<and> j < k \<longrightarrow> failure_message (transport env j) \<noteq> None)
         \<and> transport env k = Returns resp
         \<and> 200 \<le> status_code resp \<and> status_code resp < 300
         \<and> content_utf8 resp = Inr c"
  shows "snd (priv_send env s) = Inr (report p (fst (priv_send env s)))
           \<and> sending_metadata (fst (priv_send env s)) ''success'' = Some (PBool True)
           \<and> sending_metadata (fst (priv_send env s)) ''attempt'' = Some (PInt (int k))
           \<and> sending_metadata (fst (priv_send env s)) ''status_code'' = Some (PInt (status_code resp))
           \<and> sending_metadata (fst (priv_send env s)) ''response'' = Some (PStr c)
           \<and> attempt (self (fst (priv_send env s))) = k
           \<and> events (fst (priv_send env s))
               = concat (map (\<lambda>j. [Post u, Sleep j]) [0..<k - 1]) @ [Post u]
           \<and> posts (events (fst (priv_send env s))) = k
           \<and> sleeps (events (fst (priv_send env s))) = [0..<k - 1]
           \<and> (\<forall>key. add_hash (hash_value s) (payload_dict (payload p)) key = None
                 \<longrightarrow> outcome_key (priv_send env s) key
                       = Inr (if key = ''error'' then Some PNone
                              else if key = ''post_attributes''
                              then report p (fst (priv_send env s)) key
                              else sending_metadata (fst (priv_send env s)) key))"
proof (intro conjI allI impI)
  define r where "r = send_loop env (map (\<lambda>j. (j, j)) [0..<length (attempts s) - 1]) (initial_run s)"
  have ps: "priv_send env s = (r, Inr (report p r))"
    using a by (simp add: priv_send_prepared r_def iterations_map)
  have u0: "get_url (self (initial_run s)) = Inr u" using a by (simp add: initial_run_def)
  have k0: "0 < k" using a by simp
  have fl: "\<forall>j. 0 < j \<and> j < k \<longrightarrow> failure_message (transport env j) \<noteq> None"
    using a by auto
  have loop: "events r = events (initial_run s)
                 @ concat (map (failed_pass u (length (attempts (self (initial_run s))))) [0..<k - 1])
                 @ [Post u]
         \<and> attempt (self r) = k
         \<and> sending_metadata r ''success'' = Some (PBool True)
         \<and> sending_metadata r ''response'' = Some (PStr c)
         \<and> sending_metadata r ''status_code'' = Some (PInt (status_code resp))
         \<and> sending_metadata r ''attempt'' = Some (PInt (int k))"
    unfolding r_def
    using send_loop_first_success [OF u0 k0 _ fl, of "length (attempts s) - 1" resp c] a
    by blast
  have fp: "concat (map (failed_pass u (length (attempts s))) [0..<k - 1])
              = concat (map (\<lambda>j. [Post u, Sleep j]) [0..<k - 1])"
    using a by (intro failed_passes_before) simp
  have "events r = concat (map (failed_pass u (length (attempts s))) [0..<k - 1]) @ [Post u]"
    using loop by (simp add: initial_run_def)
  then have ev: "events r = concat (map (\<lambda>j. [Post u, Sleep j]) [0..<k - 1]) @ [Post u]"
    using fp by simp
  have same: "same_request (self (initial_run s)) (self r)"
    unfolding r_def by (rule send_loop_same)
  then have hv: "hash_value (self r) = hash_value s"
    by (simp add: same_request_def initial_run_def)
  show "snd (priv_send env s) = Inr (report p (fst (priv_send env s)))" using ps by simp
  show "sending_metadata (fst (priv_send env s)) ''success'' = Some (PBool True)"
    using ps loop by simp
  show "sending_metadata (fst (priv_send env s)) ''attempt'' = Some (PInt (int k))"
    using ps loop by simp
  show "sending_metadata (fst (priv_send env s)) ''status_code'' = Some (PInt (status_code resp))"
    using ps loop by simp
  show "sending_metadata (fst (priv_send env s)) ''response'' = Some (PStr c)"
    using ps loop by simp
  show "attempt (self (fst (priv_send env s))) = k" using ps loop by simp
  show "events (fst (priv_send env s)) = concat (map (\<lambda>j. [Post u, Sleep j]) [0..<k - 1]) @ [Post u]"
    using ps ev by simp
  show "posts (events (fst (priv_send env s))) = k"
    using ps ev k0 by (simp add: posts_append posts_passes) (simp add: posts_def)
  show "sleeps (events (fst (priv_send env s))) = [0..<k - 1]"
    using ps ev by (simp add: sleeps_append sleeps_passes) (simp add: sleeps_def)
  fix key
  assume nk: "add_hash (hash_value s) (payload_dict (payload p)) key = None"
  then have nk': "add_hash (hash_value (self r)) (payload_dict (payload p)) key = None"
    using hv by simp
  show "outcome_key (priv_send env s) key
          = Inr (if key = ''error'' then Some PNone
                 else if key = ''post_attributes'' then report p (fst (priv_send env s)) key
                 else sending_metadata (fst (priv_send env s)) key)"
  proof (cases "key = ''error''")
    case True
    have "report p r ''error'' = Some PNone"
      using report_error_key [of r p] nk' True loop by (simp split: option.splits)
    then show ?thesis using ps True by (simp add: outcome_key_def)
  next
    case False
    then show ?thesis
      using ps report_metadata_key [OF nk' False] by (simp add: outcome_key_def)
  qed
qed

text \<open>
  Claim C5, amended. A send makes at most \<open>N - 1\<close> calls of the transport for a
  schedule of length \<open>N\<close>. If the URL resolves, attempts \<open>1\<close> to \<open>k - 1\<close> fail and the
  \<open>k\<close>-th attempt (\<open>1 \<le> k \<le> N - 1\<close>) returns a status in [200,300) with a content
  that decodes as UTF-8, the loop ends there with \<open>success = True\<close>, \<open>attempt = k\<close>,
  \<open>status_code\<close> that status and \<open>response\<close> the decoded content: after the \<open>k\<close>-th
  call nothing more is posted and nothing slept. The returned mapping holds these
  values under every key the payload does not define, with \<open>error\<close> \<^verbatim>\<open>None\<close>.
\<close>

theorem send_stops_at_first_success:
  "posts (events (fst (priv_send env s))) \<le> length (attempts s) - 1
   \<and> (\<forall>p u k resp c.
         prepare env s = Inr p \<and> get_url s = Inr u
         \<and> 1 \<le> k \<and> k \<le> length (attempts s) - 1
         \<and> (\<forall>j. 1 \<le> j \<and> j < k \<longrightarrow> failure_message (transport env j) \<noteq> None)
         \<and> transport env k = Returns resp
         \<and> 200 \<le> status_code resp \<and> status_code resp < 300
         \<and> content_utf8 resp = Inr c
       \<longrightarrow> snd (priv_send env s) = Inr (report p (fst (priv_send env s)))
           \<and> sending_metadata (fst (priv_send env s)) ''success'' = Some (PBool True)
           \<and> sending_metadata (fst (priv_send env s)) ''attempt'' = Some (PInt (int k))
           \<and> sending_metadata (fst (priv_send env s)) ''status_code'' = Some (PInt (status_code resp))
           \<and> sending_metadata (fst (priv_send env s)) ''response'' = Some (PStr c)
           \<and> attempt (self (fst (priv_send env s))) = k
           \<and> events (fst (priv_send env s))
               = concat (map (\<lambda>j. [Post u, Sleep j]) [0..<k - 1]) @ [Post u]
           \<and> posts (events (fst (priv_send env s))) = k
           \<and> sleeps (events (fst (priv_send env s))) = [0..<k - 1]
           \<and> (\<forall>key. add_hash (hash_value s) (payload_dict (payload p)) key = None
                 \<longrightarrow> outcome_key (priv_send env s) key
                       = Inr (if key = ''error'' then Some PNone
                              else if key = ''post_attributes''
                              then report p (fst (priv_send env s)) key
                              else sending_metadata (fst (priv_send env s)) key)))"
proof (rule conjI)
  show "posts (events (fst (priv_send env s))) \<le> length (attempts s) - 1"
    by (rule priv_send_posts_bound)
qed (intro allI impI, erule priv_send_first_success)

lemma example_prepare:
  "prepare (example_env t j) (example_sender (PayStr x) h att)
     = Inr \<lparr>payload = PayStr x, timeout = PInt 5,
            headers = [''Content-Type'' \<mapsto> PStr ''application/json''], data = PStr x\<rparr>"
  by (simp add: prepare_def example_env_def example_sender_def Senderable_def example_kwargs_def
        get_payload_def get_timeout_def get_custom_headers_def get_encoding_def
        get_signing_secret_def format_payload_def jsonify_payload_def priv_value_in_def
        priv_default_timeout_def EncodingType_JSON_def EncodingType_FORMS_def)

lemma example_get_url: "get_url (example_sender p h att) = Inr example_url"
  by (simp add: get_url_def example_sender_def Senderable_def example_kwargs_def priv_value_in_def)

lemma example_fields:
  "attempts (example_sender p h att) = att" "hash_value (example_sender p h att) = h"
  "error (example_sender p h att) = None"
  by (simp_all add: example_sender_def Senderable_def)

text \<open>
  The scenario of the specification: schedule \<open>[0, 1, 0]\<close>, the first attempt answers
  500 and the second 200 with body \<open>OK\<close>.
\<close>

theorem send_stops_at_first_success_witness:
  "prepare (example_env status_500_then_200 []) (example_sender (PayStr ''raw'') None [0, 1, 0])
     = Inr \<lparr>payload = PayStr ''raw'', timeout = PInt 5,
            headers = [''Content-Type'' \<mapsto> PStr ''application/json''], data = PStr ''raw''\<rparr>
   \<and> get_url (example_sender (PayStr ''raw'') None [0, 1, 0]) = Inr example_url
   \<and> failure_message (status_500_then_200 1) = Some ''Status code (500). Message: fail''
   \<and> status_500_then_200 2
       = Returns \<lparr>status_code = 200, response_text = ''OK'', content_utf8 = Inr ''OK''\<rparr>
   \<and> events (fst (priv_send (example_env status_500_then_200 [])
                     (example_sender (PayStr ''raw'') None [0, 1, 0])))
       = [Post example_url, Sleep 0, Post example_url]
   \<and> posts (events (fst (priv_send (example_env status_500_then_200 [])
                     (example_sender (PayStr ''raw'') None [0, 1, 0])))) = 2
   \<and> outcome_key (priv_send (example_env status_500_then_200 [])
                     (example_sender (PayStr ''raw'') None [0, 1, 0])) ''success''
       = Inr (Some (PBool True))
   \<and> outcome_key (priv_send (example_env status_500_then_200 [])
                     (example_sender (PayStr ''raw'') None [0, 1, 0])) ''attempt''
       = Inr (Some (PInt 2))
   \<and> outcome_key (priv_send (example_env status_500_then_200 [])
                     (example_sender (PayStr ''raw'') None [0, 1, 0])) ''status_code''
       = Inr (Some (PInt 200))
   \<and> outcome_key (priv_send (example_env status_500_then_200 [])
                     (example_sender (PayStr ''raw'') None [0, 1, 0])) ''response''
       = Inr (Some (PStr ''OK''))
   \<and> outcome_key (priv_send (example_env status_500_then_200 [])
                     (example_sender (PayStr ''raw'') None [0, 1, 0])) ''error''
       = Inr (Some PNone)"
proof -
  let ?E = "example_env status_500_then_200 []"
  let ?S = "example_sender (PayStr ''raw'') None [0, 1, 0]"
  let ?P = "\<lparr>payload = PayStr ''raw'', timeout = PInt 5,
            headers = [''Content-Type'' \<mapsto> PStr ''application/json''], data = PStr ''raw''\<rparr>"
  let ?R = "\<lparr>status_code = 200, response_text = ''OK'', content_utf8 = Inr ''OK''\<rparr>"
  have fm: "failure_message (status_500_then_200 1) = Some ''Status code (500). Message: fail''"
    by (simp add: failure_message_def status_500_then_200_def status_error_def dec_int_def
          dec_nat.simps)
  have p1: "prepare ?E ?S = Inr ?P" by (rule example_prepare)
  have p2: "get_url ?S = Inr example_url" by (rule example_get_url)
  have p3: "2 \<le> length (attempts ?S) - 1" by (simp add: example_fields)
  have p4: "\<forall>j. 1 \<le> j \<and> j < 2 \<longrightarrow> failure_message (transport ?E j) \<noteq> None"
  proof (intro allI impI)
    fix j :: nat
    assume "1 \<le> j \<and> j < 2"
    then have "j = 1" by arith
    then show "failure_message (transport ?E j) \<noteq> None"
      using fm by (simp add: example_env_def)
  qed
  have p5: "transport ?E 2 = Returns ?R"
    by (simp add: example_env_def status_500_then_200_def)
  have prem: "prepare ?E ?S = Inr ?P \<and> get_url ?S = Inr example_url
         \<and> 1 \<le> (2::nat) \<and> 2 \<le> length (attempts ?S) - 1
         \<and> (\<forall>j. 1 \<le> j \<and> j < 2 \<longrightarrow> failure_message (transport ?E j) \<noteq> None)
         \<and> transport ?E 2 = Returns ?R
         \<and> 200 \<le> status_code ?R \<and> status_code ?R < 300
         \<and> content_utf8 ?R = Inr ''OK''"
    using p1 p2 p3 p4 p5 by simp
  note concl = send_stops_at_first_success [of ?E ?S, THEN conjunct2, rule_format, OF prem]
  have nokey: "add_hash (hash_value ?S) (payload_dict (payload ?P)) key = None"
    if "key \<noteq> ''payload''" for key
    using that by (simp add: example_fields add_hash_def payload_dict_def)
  have c1: "events (fst (priv_send ?E ?S)) = [Post example_url, Sleep 0, Post example_url]"
    using concl by simp
  have c2: "posts (events (fst (priv_send ?E ?S))) = 2"
    using concl by blast
  have md: "sending_metadata (fst (priv_send ?E ?S)) ''success'' = Some (PBool True)"
      "sending_metadata (fst (priv_send ?E ?S)) ''attempt'' = Some (PInt 2)"
      "sending_metadata (fst (priv_send ?E ?S)) ''status_code'' = Some (PInt 200)"
      "sending_metadata (fst (priv_send ?E ?S)) ''response'' = Some (PStr ''OK'')"
    using concl by simp_all
  have key: "outcome_key (priv_send ?E ?S) k
        = Inr (if k = ''error'' then Some PNone
               else if k = ''post_attributes'' then report ?P (fst (priv_send ?E ?S)) k
               else sending_metadata (fst (priv_send ?E ?S)) k)"
    if "k \<noteq> ''payload''" for k
    using concl nokey [OF that] by blast
  have k1: "outcome_key (priv_send ?E ?S) ''success'' = Inr (Some (PBool True))"
    using key [of "''success''"] md by simp
  have k2: "outcome_key (priv_send ?E ?S) ''attempt'' = Inr (Some (PInt 2))"
    using key [of "''attempt''"] md by simp
  have k3: "outcome_key (priv_send ?E ?S) ''status_code'' = Inr (Some (PInt 200))"
    using key [of "''status_code''"] md by simp
  have k4: "outcome_key (priv_send ?E ?S) ''response'' = Inr (Some (PStr ''OK''))"
    using key [of "''response''"] md by simp
  have k5: "outcome_key (priv_send ?E ?S) ''error'' = Inr (Some PNone)"
    using key [of "''error''"] by simp
  have r2: "status_500_then_200 2 = Returns ?R"
    by (simp add: status_500_then_200_def)
  from p1 p2 fm r2 c1 c2 k1 k2 k3 k4 k5 show ?thesis by blast
qed

lemma example_prepare_dict:
  "prepare (example_env t j) (example_sender (PayDict m) h att)
     = Inr \<lparr>payload = PayDict m, timeout = PInt 5,
            headers = [''Content-Type'' \<mapsto> PStr ''application/json''], data = PStr j\<rparr>"
  by (simp add: prepare_def example_env_def example_sender_def Senderable_def example_kwargs_def
        get_payload_def get_timeout_def get_custom_headers_def get_encoding_def
        get_signing_secret_def format_payload_def jsonify_payload_def priv_value_in_def
        priv_default_timeout_def EncodingType_JSON_def EncodingType_FORMS_def)

lemma example_transport: "transport (example_env t j) = t"
  by (simp add: example_env_def)

text \<open>
  Claim C5 as stated fails on the response value: the loop stores the UTF-8 decoding
  of \<^verbatim>\<open>response.content\<close> (lines 144 and 157), not \<^verbatim>\<open>response.text\<close>. For the two
  content bytes C3 A9 served as \<^verbatim>\<open>text/plain\<close> without a charset, the text is the two
  characters U+00C3 U+00A9 and the stored response the one character U+00E9.
\<close>

theorem response_is_decoded_content_counterexample:
  "latin1_reply 1
     = Returns \<lparr>status_code = 200, response_text = [CHR 0xC3, CHR 0xA9], content_utf8 = Inr [CHR 0xE9]\<rparr>
   \<and> outcome_key (priv_send (example_env latin1_reply []) (example_sender (PayStr ''raw'') None [0, 0]))
         ''response'' = Inr (Some (PStr [CHR 0xE9]))
   \<and> outcome_key (priv_send (example_env latin1_reply []) (example_sender (PayStr ''raw'') None [0, 0]))
         ''response'' \<noteq> Inr (Some (PStr [CHR 0xC3, CHR 0xA9]))"
proof -
  let ?E = "example_env latin1_reply []"
  let ?S = "example_sender (PayStr ''raw'') None [0, 0]"
  let ?P = "\<lparr>payload = PayStr ''raw'', timeout = PInt 5,
            headers = [''Content-Type'' \<mapsto> PStr ''application/json''], data = PStr ''raw''\<rparr>"
  let ?R = "\<lparr>status_code = 200, response_text = [CHR 0xC3, CHR 0xA9], content_utf8 = Inr [CHR 0xE9]\<rparr>"
  have r1: "latin1_reply 1 = Returns ?R" by (simp add: latin1_reply_def)
  have prem: "prepare ?E ?S = Inr ?P \<and> get_url ?S = Inr example_url
         \<and> 1 \<le> (1::nat) \<and> 1 \<le> length (attempts ?S) - 1
         \<and> (\<forall>j. 1 \<le> j \<and> j < 1 \<longrightarrow> failure_message (transport ?E j) \<noteq> None)
         \<and> transport ?E 1 = Returns ?R
         \<and> 200 \<le> status_code ?R \<and> status_code ?R < 300
         \<and> content_utf8 ?R = Inr [CHR 0xE9]"
    using r1 by (simp add: example_prepare example_get_url example_fields example_transport)
  note concl = priv_send_first_success [OF prem]
  have nokey: "add_hash (hash_value ?S) (payload_dict (payload ?P)) ''response'' = None"
    by (simp add: example_fields add_hash_def payload_dict_def)
  have "outcome_key (priv_send ?E ?S) ''response''
          = Inr (sending_metadata (fst (priv_send ?E ?S)) ''response'')"
    using concl nokey by simp
  moreover have "sending_metadata (fst (priv_send ?E ?S)) ''response'' = Some (PStr [CHR 0xE9])"
    using concl by simp
  ultimately have k: "outcome_key (priv_send ?E ?S) ''response'' = Inr (Some (PStr [CHR 0xE9]))"
    by simp
  then have "outcome_key (priv_send ?E ?S) ''response'' \<noteq> Inr (Some (PStr [CHR 0xC3, CHR 0xA9]))"
    by simp
  with r1 k show ?thesis by blast
qed

text \<open>
  Claim C1 at the schedule \<open>[0, 1, 0]\<close> with a first attempt that answers 500 and a
  second that answers 200: the one sleep between the two calls has duration 0, the
  index of the pass, where the schedule's wait value is 1. \<open>send_loop\<close> takes \<open>wait\<close>
  from \<^verbatim>\<open>enumerate(range(...))\<close> and never reads an element of \<open>attempts\<close>.
\<close>

theorem sleep_is_loop_index_example:
  "attempts (example_sender (PayStr ''raw'') None [0, 1, 0]) ! 1 = 1
   \<and> failure_message (status_500_then_200 1) = Some ''Status code (500). Message: fail''
   \<and> status_500_then_200 2
       = Returns \<lparr>status_code = 200, response_text = ''OK'', content_utf8 = Inr ''OK''\<rparr>
   \<and> events (fst (priv_send (example_env status_500_then_200 [])
                     (example_sender (PayStr ''raw'') None [0, 1, 0])))
       = [Post example_url, Sleep 0, Post example_url]
   \<and> sleeps (events (fst (priv_send (example_env status_500_then_200 [])
                     (example_sender (PayStr ''raw'') None [0, 1, 0])))) = [0]"
proof -
  let ?E = "example_env status_500_then_200 []"
  let ?S = "example_sender (PayStr ''raw'') None [0, 1, 0]"
  let ?P = "\<lparr>payload = PayStr ''raw'', timeout = PInt 5,
            headers = [''Content-Type'' \<mapsto> PStr ''application/json''], data = PStr ''raw''\<rparr>"
  let ?R = "\<lparr>status_code = 200, response_text = ''OK'', content_utf8 = Inr ''OK''\<rparr>"
  have fm: "failure_message (status_500_then_200 1) = Some ''Status code (500). Message: fail''"
    by (simp add: failure_message_def status_500_then_200_def status_error_def dec_int_def
          dec_nat.simps)
  have r2: "status_500_then_200 2 = Returns ?R"
    by (simp add: status_500_then_200_def)
  have p4: "\<forall>j. 1 \<le> j \<and> j < 2 \<longrightarrow> failure_message (transport ?E j) \<noteq> None"
  proof (intro allI impI)
    fix j :: nat
    assume "1 \<le> j \<and> j < 2"
    then have "j = 1" by arith
    then show "failure_message (transport ?E j) \<noteq> None"
      using fm by (simp add: example_transport)
  qed
  have prem: "prepare ?E ?S = Inr ?P \<and> get_url ?S = Inr example_url
         \<and> 1 \<le> (2::nat) \<and> 2 \<le> length (attempts ?S) - 1
         \<and> (\<forall>j. 1 \<le> j \<and> j < 2 \<longrightarrow> failure_message (transport ?E j) \<noteq> None)
         \<and> transport ?E 2 = Returns ?R
         \<and> 200 \<le> status_code ?R \<and> status_code ?R < 300
         \<and> content_utf8 ?R = Inr ''OK''"
    using p4 r2 by (simp add: example_prepare example_get_url example_fields example_transport)
  note concl = priv_send_first_success [OF prem]
  have c1: "events (fst (priv_send ?E ?S)) = [Post example_url, Sleep 0, Post example_url]"
    using concl by simp
  have c2: "sleeps (events (fst (priv_send ?E ?S))) = [0]"
    using c1 by (simp add: sleeps_def)
  have a1: "attempts ?S ! 1 = 1" by (simp add: example_fields)
  from a1 fm r2 c1 c2 show ?thesis by blast
qed

lemma failed_passes_all:
  assumes "2 \<le> N"
  shows "concat (map (failed_pass u N) [0..<N - 1])
           = concat (map (\<lambda>j. [Post u, Sleep j]) [0..<N - 2]) @ [Post u]"
proof -
  have n: "N - 1 = Suc (N - 2)" using assms by simp
  have "map (failed_pass u N) [0..<N - 2] = map (\<lambda>j. [Post u, Sleep j]) [0..<N - 2]"
    by (intro map_cong) (auto simp: failed_pass_def)
  then have pre: "concat (map (failed_pass u N) [0..<N - 2])
      = concat (map (\<lambda>j. [Post u, Sleep j]) [0..<N - 2])"
    by (rule arg_cong)
  have last: "failed_pass u N (N - 2) = [Post u]"
    using assms by (simp add: failed_pass_def)
  have "[0..<N - 1] = [0..<N - 2] @ [N - 2]"
    using n by simp
  then show ?thesis using pre last by simp
qed

lemma priv_send_all_fail:
  assumes a: "prepare env s = Inr p \<and> get_url s = Inr u \<and> 2 \<le> length (attempts s)
         \<and> (\<forall>k. 1 \<le> k \<and> k \<le> length (attempts s) - 1
               \<longrightarrow> failure_message (transport env k) \<noteq> None)
         \<and> failure_message (transport env (length (attempts s) - 1)) = Some m"
  shows "snd (priv_send env s) = Inr (report p (fst (priv_send env s)))
         \<and> sending_metadata (fst (priv_send env s)) ''success'' = Some (PBool False)
         \<and> sending_metadata (fst (priv_send env s)) ''attempt''
             = Some (PInt (int (length (attempts s)) - 1))
         \<and> attempt (self (fst (priv_send env s))) = length (attempts s) - 1
         \<and> error (self (fst (priv_send env s))) = Some m
         \<and> events (fst (priv_send env s))
             = concat (map (\<lambda>j. [Post u, Sleep j]) [0..<length (attempts s) - 2]) @ [Post u]
         \<and> posts (events (fst (priv_send env s))) = length (attempts s) - 1
         \<and> sleeps (events (fst (priv_send env s))) = [0..<length (attempts s) - 2]
         \<and> (\<forall>key. add_hash (hash_value s) (payload_dict (payload p)) key = None
               \<longrightarrow> outcome_key (priv_send env s) key
                     = Inr (if key = ''error'' then Some (if m = [] then PNone else PStr m)
                            else if key = ''post_attributes''
                            then report p (fst (priv_send env s)) key
                            else sending_metadata (fst (priv_send env s)) key))"
proof (intro conjI allI impI)
  define N where "N = length (attempts s)"
  define r where "r = send_loop env (map (\<lambda>j. (j, j)) [0..<N - 1]) (initial_run s)"
  have ps: "priv_send env s = (r, Inr (report p r))"
    using a by (simp add: priv_send_prepared r_def N_def iterations_map)
  have u0: "get_url (self (initial_run s)) = Inr u" using a by (simp add: initial_run_def)
  have N2: "2 \<le> N" using a by (simp add: N_def)
  have fl: "\<forall>k. 0 < k \<and> k \<le> N - 1 \<longrightarrow> failure_message (transport env k) \<noteq> None"
    using a by (auto simp: N_def)
  have lt: "0 < N - 1" using N2 by simp
  have loop: "events r = events (initial_run s)
                 @ concat (map (failed_pass u (length (attempts (self (initial_run s))))) [0..<N - 1])
         \<and> sending_metadata r ''success'' = sending_metadata (initial_run s) ''success''
         \<and> attempt (self r) = N - 1
         \<and> error (self r) = failure_message (transport env (N - 1))
         \<and> sending_metadata r ''attempt'' = Some (PInt (int (N - 1)))"
    unfolding r_def
    using send_loop_failures [OF u0 fl] lt by blast
  have "events r = concat (map (failed_pass u N) [0..<N - 1])"
    using loop by (simp add: initial_run_def N_def)
  then have ev: "events r = concat (map (\<lambda>j. [Post u, Sleep j]) [0..<N - 2]) @ [Post u]"
    using failed_passes_all [OF N2, of u] by simp
  have err: "error (self r) = Some m" using loop a by (simp add: N_def)
  have succ: "sending_metadata r ''success'' = Some (PBool False)"
    using loop by (simp add: initial_run_def)
  have same: "same_request (self (initial_run s)) (self r)"
    unfolding r_def by (rule send_loop_same)
  then have hv: "hash_value (self r) = hash_value s"
    by (simp add: same_request_def initial_run_def)
  have intN: "int (N - 1) = int N - 1" using N2 by simp
  show "snd (priv_send env s) = Inr (report p (fst (priv_send env s)))" using ps by simp
  show "sending_metadata (fst (priv_send env s)) ''success'' = Some (PBool False)"
    using ps succ by simp
  show "sending_metadata (fst (priv_send env s)) ''attempt''
          = Some (PInt (int (length (attempts s)) - 1))"
    using ps loop intN by (simp add: N_def)
  show "attempt (self (fst (priv_send env s))) = length (attempts s) - 1"
    using ps loop by (simp add: N_def)
  show "error (self (fst (priv_send env s))) = Some m" using ps err by simp
  show "events (fst (priv_send env s))
          = concat (map (\<lambda>j. [Post u, Sleep j]) [0..<length (attempts s) - 2]) @ [Post u]"
    using ps ev by (simp add: N_def)
  show "posts (events (fst (priv_send env s))) = length (attempts s) - 1"
    using ps ev N2 by (simp add: posts_append posts_passes N_def) (simp add: posts_def)
  show "sleeps (events (fst (priv_send env s))) = [0..<length (attempts s) - 2]"
    using ps ev by (simp add: sleeps_append sleeps_passes N_def) (simp add: sleeps_def)
  fix key
  assume nk: "add_hash (hash_value s) (payload_dict (payload p)) key = None"
  then have nk': "add_hash (hash_value (self r)) (payload_dict (payload p)) key = None"
    using hv by simp
  show "outcome_key (priv_send env s) key
          = Inr (if key = ''error'' then Some (if m = [] then PNone else PStr m)
                 else if key = ''post_attributes'' then report p (fst (priv_send env s)) key
                 else sending_metadata (fst (priv_send env s)) key)"
  proof (cases "key = ''error''")
    case True
    have "report p r ''error'' = Some (if m = [] then PNone else PStr m)"
      using report_error_key [of r p] nk' True err succ by simp
    then show ?thesis using ps True by (simp add: outcome_key_def)
  next
    case False
    then show ?thesis
      using ps report_metadata_key [OF nk' False] by (simp add: outcome_key_def)
  qed
qed

text \<open>
  Claim C6, amended. For a schedule of length \<open>N \<ge> 2\<close> whose \<open>N - 1\<close> attempts all
  fail, with \<open>m\<close> the message of the last failure (the exception text with double
  quotes replaced by single quotes, or the formatted status-code message), the send
  raises nothing and returns a mapping; the loop leaves \<open>success = False\<close> and
  \<open>attempt = N - 1\<close>, and the mapping holds them under every key the payload does
  not define, with \<open>error\<close> equal to \<open>m\<close> when \<open>m\<close> is not empty and \<^verbatim>\<open>None\<close> when it
  is. It posts \<open>N - 1\<close> times and sleeps \<open>N - 2\<close> times.
\<close>

theorem send_all_attempts_fail:
  "\<forall>p u m.
     prepare env s = Inr p \<and> get_url s = Inr u \<and> 2 \<le> length (attempts s)
     \<and> (\<forall>k. 1 \<le> k \<and> k \<le> length (attempts s) - 1
           \<longrightarrow> failure_message (transport env k) \<noteq> None)
     \<and> failure_message (transport env (length (attempts s) - 1)) = Some m
   \<longrightarrow> snd (priv_send env s) = Inr (report p (fst (priv_send env s)))
       \<and> sending_metadata (fst (priv_send env s)) ''success'' = Some (PBool False)
       \<and> sending_metadata (fst (priv_send env s)) ''attempt''
           = Some (PInt (int (length (attempts s)) - 1))
       \<and> attempt (self (fst (priv_send env s))) = length (attempts s) - 1
       \<and> error (self (fst (priv_send env s))) = Some m
       \<and> events (fst (priv_send env s))
           = concat (map (\<lambda>j. [Post u, Sleep j]) [0..<length (attempts s) - 2]) @ [Post u]
       \<and> posts (events (fst (priv_send env s))) = length (attempts s) - 1
       \<and> sleeps (events (fst (priv_send env s))) = [0..<length (attempts s) - 2]
       \<and> (\<forall>key. add_hash (hash_value s) (payload_dict (payload p)) key = None
             \<longrightarrow> outcome_key (priv_send env s) key
                   = Inr (if key = ''error'' then Some (if m = [] then PNone else PStr m)
                          else if key = ''post_attributes''
                          then report p (fst (priv_send env s)) key
                          else sending_metadata (fst (priv_send env s)) key))
       \<and> (\<forall>msg. transport env (length (attempts s) - 1) = Raises msg
             \<longrightarrow> m = replace_dquote msg)
       \<and> (\<forall>resp c. transport env (length (attempts s) - 1) = Returns resp
               \<and> content_utf8 resp = Inr c \<longrightarrow> m = status_error resp)"
proof (intro allI impI)
  fix p u m
  assume a: "prepare env s = Inr p \<and> get_url s = Inr u \<and> 2 \<le> length (attempts s)
     \<and> (\<forall>k. 1 \<le> k \<and> k \<le> length (attempts s) - 1
           \<longrightarrow> failure_message (transport env k) \<noteq> None)
     \<and> failure_message (transport env (length (attempts s) - 1)) = Some m"
  have m1: "\<forall>msg. transport env (length (attempts s) - 1) = Raises msg
             \<longrightarrow> m = replace_dquote msg"
    using a by (auto simp: failure_message_def)
  have m2: "\<forall>resp c. transport env (length (attempts s) - 1) = Returns resp
               \<and> content_utf8 resp = Inr c \<longrightarrow> m = status_error resp"
    using a by (auto simp: failure_message_def split: if_splits)
  show "snd (priv_send env s) = Inr (report p (fst (priv_send env s)))
       \<and> sending_metadata (fst (priv_send env s)) ''success'' = Some (PBool False)
       \<and> sending_metadata (fst (priv_send env s)) ''attempt''
           = Some (PInt (int (length (attempts s)) - 1))
       \<and> attempt (self (fst (priv_send env s))) = length (attempts s) - 1
       \<and> error (self (fst (priv_send env s))) = Some m
       \<and> events (fst (priv_send env s))
           = concat (map (\<lambda>j. [Post u, Sleep j]) [0..<length (attempts s) - 2]) @ [Post u]
       \<and> posts (events (fst (priv_send env s))) = length (attempts s) - 1
       \<and> sleeps (events (fst (priv_send env s))) = [0..<length (attempts s) - 2]
       \<and> (\<forall>key. add_hash (hash_value s) (payload_dict (payload p)) key = None
             \<longrightarrow> outcome_key (priv_send env s) key
                   = Inr (if key = ''error'' then Some (if m = [] then PNone else PStr m)
                          else if key = ''post_attributes''
                          then report p (fst (priv_send env s)) key
                          else sending_metadata (fst (priv_send env s)) key))
       \<and> (\<forall>msg. transport env (length (attempts s) - 1) = Raises msg
             \<longrightarrow> m = replace_dquote msg)
       \<and> (\<forall>resp c. transport env (length (attempts s) - 1) = Returns resp
               \<and> content_utf8 resp = Inr c \<longrightarrow> m = status_error resp)"
    using priv_send_all_fail [OF a] m1 m2 by blast
qed

lemma priv_send_payload_key:
  assumes "prepare env s = Inr p"
    and "add_hash (hash_value s) (payload_dict (payload p)) k = Some v"
  shows "outcome_key (priv_send env s) k = Inr (Some v)"
proof -
  define r where "r = send_loop env (iterations s) (initial_run s)"
  have ps: "priv_send env s = (r, Inr (report p r))"
    using assms(1) by (simp add: priv_send_prepared r_def)
  have "same_request (self (initial_run s)) (self r)"
    unfolding r_def by (rule send_loop_same)
  then have "hash_value (self r) = hash_value s"
    by (simp add: same_request_def initial_run_def)
  then have "report p r k = Some v"
    using report_payload_key [of r p k v] assms(2) by simp
  then show ?thesis using ps by (simp add: outcome_key_def)
qed

lemma always_raises_message: "failure_message (always_raises msg k) = Some (replace_dquote msg)"
  by (simp add: failure_message_def always_raises_def)

lemma replace_dquote_plain: "replace_dquote [] = []" "replace_dquote ''boom'' = ''boom''"
  by (simp_all add: replace_dquote_def dquote_def)

text \<open>
  Claim C6 as stated fails in two ways. An exception whose text is empty leaves
  \<open>error\<close> \<^verbatim>\<open>None\<close>, not the empty message (line 185 tests \<^verbatim>\<open>not self.error\<close>). And a
  payload that has a \<open>success\<close> key overwrites the metadata of the same name in the
  returned mapping (line 195), here with \<open>True\<close> although the only attempt failed.
\<close>

theorem error_of_failed_send_counterexample:
  "failure_message (always_raises [] 1) = Some []
   \<and> outcome_key (priv_send (example_env (always_raises []) [])
                    (example_sender (PayStr ''raw'') None [0, 0])) ''error'' = Inr (Some PNone)
   \<and> outcome_key (priv_send (example_env (always_raises []) [])
                    (example_sender (PayStr ''raw'') None [0, 0])) ''error'' \<noteq> Inr (Some (PStr []))
   \<and> failure_message (always_raises ''boom'' 1) = Some ''boom''
   \<and> outcome_key (priv_send (example_env (always_raises ''boom'') ''{}'')
                    (example_sender (PayDict [''success'' \<mapsto> PBool True]) None [0, 0])) ''success''
       = Inr (Some (PBool True))
   \<and> outcome_key (priv_send (example_env (always_raises ''boom'') ''{}'')
                    (example_sender (PayDict [''success'' \<mapsto> PBool True]) None [0, 0])) ''success''
       \<noteq> Inr (Some (PBool False))"
proof -
  let ?E = "example_env (always_raises []) []"
  let ?S = "example_sender (PayStr ''raw'') None [0, 0]"
  let ?P = "\<lparr>payload = PayStr ''raw'', timeout = PInt 5,
            headers = [''Content-Type'' \<mapsto> PStr ''application/json''], data = PStr ''raw''\<rparr>"
  have f1: "failure_message (always_raises [] 1) = Some []"
    by (simp add: always_raises_message replace_dquote_plain)
  have all1: "\<forall>k. 1 \<le> k \<and> k \<le> length (attempts ?S) - 1
               \<longrightarrow> failure_message (transport ?E k) \<noteq> None"
    by (simp add: example_transport always_raises_message)
  have prem: "prepare ?E ?S = Inr ?P \<and> get_url ?S = Inr example_url \<and> 2 \<le> length (attempts ?S)
         \<and> (\<forall>k. 1 \<le> k \<and> k \<le> length (attempts ?S) - 1
               \<longrightarrow> failure_message (transport ?E k) \<noteq> None)
         \<and> failure_message (transport ?E (length (attempts ?S) - 1)) = Some []"
    using all1
    by (simp add: example_prepare example_get_url example_fields example_transport
          always_raises_message replace_dquote_plain)
  note concl = priv_send_all_fail [OF prem]
  have nokey: "add_hash (hash_value ?S) (payload_dict (payload ?P)) ''error'' = None"
    by (simp add: example_fields add_hash_def payload_dict_def)
  have e1: "outcome_key (priv_send ?E ?S) ''error'' = Inr (Some PNone)"
    using concl nokey by simp
  then have e2: "outcome_key (priv_send ?E ?S) ''error'' \<noteq> Inr (Some (PStr []))"
    by simp
  let ?E2 = "example_env (always_raises ''boom'') ''{}''"
  let ?S2 = "example_sender (PayDict [''success'' \<mapsto> PBool True]) None [0, 0]"
  let ?P2 = "\<lparr>payload = PayDict [''success'' \<mapsto> PBool True], timeout = PInt 5,
            headers = [''Content-Type'' \<mapsto> PStr ''application/json''], data = PStr ''{}''\<rparr>"
  have f2: "failure_message (always_raises ''boom'' 1) = Some ''boom''"
    by (simp add: always_raises_message replace_dquote_plain)
  have p2: "prepare ?E2 ?S2 = Inr ?P2" by (rule example_prepare_dict)
  have key2: "add_hash (hash_value ?S2) (payload_dict (payload ?P2)) ''success'' = Some (PBool True)"
    by (simp add: example_fields add_hash_def payload_dict_def)
  have s1: "outcome_key (priv_send ?E2 ?S2) ''success'' = Inr (Some (PBool True))"
    by (rule priv_send_payload_key [OF p2 key2])
  then have s2: "outcome_key (priv_send ?E2 ?S2) ''success'' \<noteq> Inr (Some (PBool False))"
    by simp
  from f1 e1 e2 f2 s1 s2 show ?thesis by blast
qed

text \<open>Schedule \<open>[0, 0, 0]\<close> with a transport that raises \<open>boom\<close> at every call.\<close>

theorem send_all_attempts_fail_witness:
  "prepare (example_env (always_raises ''boom'') []) (example_sender (PayStr ''raw'') None [0, 0, 0])
     = Inr \<lparr>payload = PayStr ''raw'', timeout = PInt 5,
            headers = [''Content-Type'' \<mapsto> PStr ''application/json''], data = PStr ''raw''\<rparr>
   \<and> get_url (example_sender (PayStr ''raw'') None [0, 0, 0]) = Inr example_url
   \<and> failure_message (always_raises ''boom'' 1) = Some ''boom''
   \<and> failure_message (always_raises ''boom'' 2) = Some ''boom''
   \<and> events (fst (priv_send (example_env (always_raises ''boom'') [])
                     (example_sender (PayStr ''raw'') None [0, 0, 0])))
       = [Post example_url, Sleep 0, Post example_url]
   \<and> outcome_key (priv_send (example_env (always_raises ''boom'') [])
                     (example_sender (PayStr ''raw'') None [0, 0, 0])) ''success''
       = Inr (Some (PBool False))
   \<and> outcome_key (priv_send (example_env (always_raises ''boom'') [])
                     (example_sender (PayStr ''raw'') None [0, 0, 0])) ''attempt''
       = Inr (Some (PInt 2))
   \<and> outcome_key (priv_send (example_env (always_raises ''boom'') [])
                     (example_sender (PayStr ''raw'') None [0, 0, 0])) ''error''
       = Inr (Some (PStr ''boom''))"
proof -
  let ?E = "example_env (always_raises ''boom'') []"
  let ?S = "example_sender (PayStr ''raw'') None [0, 0, 0]"
  let ?P = "\<lparr>payload = PayStr ''raw'', timeout = PInt 5,
            headers = [''Content-Type'' \<mapsto> PStr ''application/json''], data = PStr ''raw''\<rparr>"
  have f: "failure_message (always_raises ''boom'' k) = Some ''boom''" for k
    by (simp add: always_raises_message replace_dquote_plain)
  have p1: "prepare ?E ?S = Inr ?P" by (rule example_prepare)
  have p2: "get_url ?S = Inr example_url" by (rule example_get_url)
  have prem: "prepare ?E ?S = Inr ?P \<and> get_url ?S = Inr example_url \<and> 2 \<le> length (attempts ?S)
         \<and> (\<forall>k. 1 \<le> k \<and> k \<le> length (attempts ?S) - 1
               \<longrightarrow> failure_message (transport ?E k) \<noteq> None)
         \<and> failure_message (transport ?E (length (attempts ?S) - 1)) = Some ''boom''"
    using p1 p2 f by (simp add: example_fields example_transport)
  note concl = send_all_attempts_fail [of ?E ?S, rule_format, OF prem]
  have nokey: "add_hash (hash_value ?S) (payload_dict (payload ?P)) key = None"
    if "key \<noteq> ''payload''" for key
    using that by (simp add: example_fields add_hash_def payload_dict_def)
  have ev: "events (fst (priv_send ?E ?S)) = [Post example_url, Sleep 0, Post example_url]"
    using concl by (simp add: example_fields)
  have md: "sending_metadata (fst (priv_send ?E ?S)) ''success'' = Some (PBool False)"
      "sending_metadata (fst (priv_send ?E ?S)) ''attempt'' = Some (PInt 2)"
    using concl by (simp_all add: example_fields)
  have key: "outcome_key (priv_send ?E ?S) k
        = Inr (if k = ''error'' then Some (if ''boom'' = [] then PNone else PStr ''boom'')
               else if k = ''post_attributes'' then report ?P (fst (priv_send ?E ?S)) k
               else sending_metadata (fst (priv_send ?E ?S)) k)"
    if "k \<noteq> ''payload''" for k
    using concl nokey [OF that] by blast
  have k1: "outcome_key (priv_send ?E ?S) ''success'' = Inr (Some (PBool False))"
    using key [of "''success''"] md by simp
  have k2: "outcome_key (priv_send ?E ?S) ''attempt'' = Inr (Some (PInt 2))"
    using key [of "''attempt''"] md by simp
  have k3: "outcome_key (priv_send ?E ?S) ''error'' = Inr (Some (PStr ''boom''))"
    using key [of "''error''"] by simp
  from p1 p2 f [of 1] f [of 2] ev k1 k2 k3 show ?thesis by blast
qed

text \<open>
  The two kinds of failure of the specification, and a third: a response whose content
  does not decode as UTF-8 fails the attempt whatever its status, since line 144
  raises before the status is looked at.
\<close>

lemma failure_message_undecodable:
  "content_utf8 resp = Inl msg \<Longrightarrow> failure_message (Returns resp) = Some (replace_dquote msg)"
  by (simp add: failure_message_def)

lemma failure_message_cases:
  "failure_message (Raises msg) = Some (replace_dquote msg)"
  "content_utf8 resp = Inr c \<Longrightarrow> \<not> (200 \<le> status_code resp \<and> status_code resp < 300)
     \<Longrightarrow> failure_message (Returns resp) = Some (status_error resp)"
  by (simp_all add: failure_message_def)

section \<open>A required setting that is missing\<close>

lemma example_no_url_prepare:
  "prepare (example_env t j) (example_sender_no_url att)
     = Inr \<lparr>payload = PayStr ''raw'', timeout = PInt 5,
            headers = [''Content-Type'' \<mapsto> PStr ''application/json''], data = PStr ''raw''\<rparr>"
  by (simp add: prepare_def example_env_def example_sender_no_url_def Senderable_def
        get_payload_def get_timeout_def get_custom_headers_def get_encoding_def
        get_signing_secret_def format_payload_def jsonify_payload_def priv_value_in_def
        priv_default_timeout_def EncodingType_JSON_def EncodingType_FORMS_def)

lemma example_no_url_get_url:
  "get_url (example_sender_no_url att) = Inl (TypeError ''Sender function needs a url argument'')"
  by (simp add: get_url_def example_sender_no_url_def Senderable_def priv_value_in_def)

lemma try_body_no_url:
  assumes "get_url (self r) = Inl e"
  shows "try_body env r = (False, on_exception (str_of_error e) r)"
  using assms by (simp add: try_body_def)

lemma loop_body_no_url:
  assumes "get_url (self r) = Inl e"
  shows "\<exists>r'. loop_body env (i, w) r = (False, r') \<and> same_request (self r) (self r')
           \<and> attempt (self r') = Suc i
           \<and> error (self r') = Some (replace_dquote (str_of_error e))
           \<and> events r' = events r
                 @ (if int (Suc i) = int (length (attempts (self r))) - 1 then [] else [Sleep w])
           \<and> sending_metadata r' ''success'' = sending_metadata r ''success''
           \<and> sending_metadata r' ''attempt'' = Some (PInt (int (Suc i)))"
proof -
  define r2 where
    "r2 = r\<lparr>self := (self r)\<lparr>attempt := i + 1\<rparr>,
            sending_metadata := (sending_metadata r)(''attempt'' \<mapsto> PInt (int (i + 1)))\<rparr>"
  have u2: "get_url (self r2) = Inl e"
    using assms by (simp add: r2_def get_url_def)
  have tb: "try_body env r2 = (False, on_exception (str_of_error e) r2)"
    by (rule try_body_no_url [OF u2])
  show ?thesis
    using tb
    by (cases "int (Suc i) = int (length (attempts (self r))) - 1")
       (auto simp: loop_body_def r2_def Let_def on_exception_def same_request_def)
qed

lemma send_loop_no_url:
  assumes "get_url (self r) = Inl e"
  shows "events (send_loop env (map (\<lambda>j. (j, j)) [i..<n]) r)
           = events r @ concat (map (\<lambda>j. if int (Suc j) = int (length (attempts (self r))) - 1
                                          then [] else [Sleep j]) [i..<n])
         \<and> sending_metadata (send_loop env (map (\<lambda>j. (j, j)) [i..<n]) r) ''success''
           = sending_metadata r ''success''
         \<and> (i < n \<longrightarrow>
              attempt (self (send_loop env (map (\<lambda>j. (j, j)) [i..<n]) r)) = n
              \<and> error (self (send_loop env (map (\<lambda>j. (j, j)) [i..<n]) r))
                  = Some (replace_dquote (str_of_error e))
              \<and> sending_metadata (send_loop env (map (\<lambda>j. (j, j)) [i..<n]) r) ''attempt''
                  = Some (PInt (int n)))"
  using assms
proof (induction "n - i" arbitrary: i r)
  case 0
  then show ?case by simp
next
  case (Suc d)
  then have lt: "i < n" by simp
  then have split: "[i..<n] = i # [Suc i..<n]" by (simp add: upt_conv_Cons)
  obtain r' where r': "loop_body env (i, i) r = (False, r')" "same_request (self r) (self r')"
      "attempt (self r') = Suc i" "error (self r') = Some (replace_dquote (str_of_error e))"
      "events r' = events r
          @ (if int (Suc i) = int (length (attempts (self r))) - 1 then [] else [Sleep i])"
      "sending_metadata r' ''success'' = sending_metadata r ''success''"
      "sending_metadata r' ''attempt'' = Some (PInt (int (Suc i)))"
    using loop_body_no_url [OF Suc.prems(1), of env i i] by blast
  have u': "get_url (self r') = Inl e"
    using get_url_same [OF r'(2)] Suc.prems(1) by simp
  have att': "attempts (self r') = attempts (self r)"
    using r'(2) by (simp add: same_request_def)
  have d: "d = n - Suc i" using Suc.hyps(2) by simp
  note IH = Suc.hyps(1) [OF d u']
  have unfold: "send_loop env (map (\<lambda>j. (j, j)) [i..<n]) r
      = send_loop env (map (\<lambda>j. (j, j)) [Suc i..<n]) r'"
    using r'(1) split by simp
  show ?case
  proof (cases "Suc i < n")
    case True
    then show ?thesis
      using IH unfold r' att' split by simp
  next
    case False
    then have n: "n = Suc i" using lt by simp
    then show ?thesis
      using unfold r' by simp
  qed
qed

text \<open>
  Claim C3 at a request with the JSON encoding, no \<open>url\<close> in either source and the
  schedule \<open>[0, 0, 0]\<close>. \<^verbatim>\<open>self.url\<close> is first read inside the \<^verbatim>\<open>try\<close> of the loop
  (line 139), so the \<^verbatim>\<open>TypeError\<close> of the required lookup is caught by
  \<^verbatim>\<open>except Exception\<close>: nothing is raised, the attempt counts as failed, the loop
  sleeps and tries again, and the message ends up in \<open>error\<close> of the returned
  mapping. The other required setting, \<open>encoding\<close>, is read before the loop (line
  125) and its absence does raise out of the send.
\<close>

theorem missing_url_is_retried_example:
  "get_url (example_sender_no_url [0, 0, 0])
     = Inl (TypeError ''Sender function needs a url argument'')
   \<and> events (fst (priv_send (example_env status_500_then_200 []) (example_sender_no_url [0, 0, 0])))
       = [Sleep 0]
   \<and> outcome_key (priv_send (example_env status_500_then_200 []) (example_sender_no_url [0, 0, 0]))
         ''success'' = Inr (Some (PBool False))
   \<and> outcome_key (priv_send (example_env status_500_then_200 []) (example_sender_no_url [0, 0, 0]))
         ''attempt'' = Inr (Some (PInt 2))
   \<and> outcome_key (priv_send (example_env status_500_then_200 []) (example_sender_no_url [0, 0, 0]))
         ''error'' = Inr (Some (PStr ''Sender function needs a url argument''))
   \<and> snd (priv_send (example_env status_500_then_200 [])
            (Senderable (\<lambda>a k. Inr (PayStr ''raw'')) Map.empty None [0, 0, 0] []
               [''url'' \<mapsto> example_url]))
       = Inl (TypeError ''Sender function needs a encoding argument'')"
proof -
  let ?E = "example_env status_500_then_200 []"
  let ?S = "example_sender_no_url [0, 0, 0]"
  let ?P = "\<lparr>payload = PayStr ''raw'', timeout = PInt 5,
            headers = [''Content-Type'' \<mapsto> PStr ''application/json''], data = PStr ''raw''\<rparr>"
  define r where "r = (\<lambda>env. send_loop env (iterations ?S) (initial_run ?S))"
  have att: "attempts ?S = [0, 0, 0]" "hash_value ?S = None"
    by (simp_all add: example_sender_no_url_def Senderable_def)
  have u: "get_url ?S = Inl (TypeError ''Sender function needs a url argument'')"
    by (rule example_no_url_get_url)
  have ps: "priv_send ?E ?S = (r ?E, Inr (report ?P (r ?E)))"
    using example_no_url_prepare [of status_500_then_200 "[]" "[0, 0, 0]"]
    by (simp add: priv_send_prepared r_def)
  have two: "[0..<2] = [0, 1::nat]" by (simp add: upt_conv_Cons)
  have "length (attempts ?S) - 1 = 2" by (simp add: att)
  then have it: "iterations ?S = map (\<lambda>j. (j, j)) [0..<2]"
    by (simp only: iterations_map)
  have u0: "get_url (self (initial_run ?S)) = Inl (TypeError ''Sender function needs a url argument'')"
    using u by (simp add: initial_run_def)
  have rq: "replace_dquote ''Sender function needs a url argument''
      = ''Sender function needs a url argument''"
    by (simp add: replace_dquote_def dquote_def)
  have loop: "events (r ?E) = [Sleep 0]
       \<and> sending_metadata (r ?E) ''success'' = Some (PBool False)
       \<and> attempt (self (r ?E)) = 2
       \<and> error (self (r ?E)) = Some ''Sender function needs a url argument''
       \<and> sending_metadata (r ?E) ''attempt'' = Some (PInt 2)"
    using send_loop_no_url [OF u0, of ?E 0 2] rq
    unfolding r_def it by (simp add: initial_run_def att two)
  have same: "same_request (self (initial_run ?S)) (self (r ?E))"
    unfolding r_def by (rule send_loop_same)
  then have hv: "hash_value (self (r ?E)) = None"
    using att by (simp add: same_request_def initial_run_def)
  have nokey: "add_hash (hash_value (self (r ?E))) (payload_dict (payload ?P)) key = None"
    if "key \<noteq> ''payload''" for key
    using that hv by (simp add: add_hash_def payload_dict_def)
  have k1: "outcome_key (priv_send ?E ?S) ''success'' = Inr (Some (PBool False))"
    using ps loop report_metadata_key [of "r ?E" ?P "''success''"] nokey [of "''success''"]
    by (simp add: outcome_key_def)
  have k2: "outcome_key (priv_send ?E ?S) ''attempt'' = Inr (Some (PInt 2))"
    using ps loop report_metadata_key [of "r ?E" ?P "''attempt''"] nokey [of "''attempt''"]
    by (simp add: outcome_key_def)
  have k3: "outcome_key (priv_send ?E ?S) ''error''
      = Inr (Some (PStr ''Sender function needs a url argument''))"
    using ps loop report_error_key [of "r ?E" ?P] nokey [of "''error''"]
    by (simp add: outcome_key_def)
  have ev: "events (fst (priv_send ?E ?S)) = [Sleep 0]" using ps loop by simp
  have enc: "snd (priv_send ?E (Senderable (\<lambda>a k. Inr (PayStr ''raw'')) Map.empty None [0, 0, 0] []
               [''url'' \<mapsto> example_url]))
       = Inl (TypeError ''Sender function needs a encoding argument'')"
    by (simp add: priv_send_def prepare_def Senderable_def get_payload_def get_timeout_def
          get_custom_headers_def get_encoding_def priv_value_in_def)
  from u ev k1 k2 k3 enc show ?thesis by blast
qed

section \<open>The payload in the result\<close>

lemma jsonify_string: "jsonify_payload env (PayStr x) = Inr (PStr x)"
  by (simp add: jsonify_payload_def)

lemma create_signature_text:
  "(\<exists>b. secret = PBytes b) \<or> (\<exists>y. secret = PStr y)
     \<Longrightarrow> \<exists>sig. create_signature env (PStr x) secret = Inr sig"
  by (auto simp: create_signature_def)

lemma prepare_string_json:
  assumes "get_payload s = Inr (PayStr x)"
    and "get_encoding s = Inr (PStr ''application/json'')"
    and "\<forall>v. get_custom_headers s = Inr v \<longrightarrow> \<not> truthy v \<or> (\<exists>m. v = PDict m)"
    and "\<forall>v. get_signing_secret s = Inr v
           \<longrightarrow> \<not> truthy v \<or> (\<exists>b. v = PBytes b) \<or> (\<exists>y. v = PStr y)"
  shows "\<exists>p. prepare env s = Inr p \<and> payload p = PayStr x"
proof -
  obtain t where t: "get_timeout s = Inr t"
    using priv_value_in_optional [of "''timeout''" "dkwargs s" "kwargs s"]
    by (auto simp: get_timeout_def)
  obtain ch where ch: "get_custom_headers s = Inr ch"
    using priv_value_in_optional [of "''custom_headers''" "dkwargs s" "kwargs s"]
    by (auto simp: get_custom_headers_def)
  obtain sec where sec: "get_signing_secret s = Inr sec"
    using priv_value_in_optional [of "''signing_secret''" "dkwargs s" "kwargs s"]
    by (auto simp: get_signing_secret_def)
  obtain h1 where h1:
    "setitem (if truthy ch then ch else PDict Map.empty) ''Content-Type'' (PStr ''application/json'')
       = Inr h1"
    using assms(3) ch by (cases "truthy ch") auto
  have fp: "format_payload env s = Inr (PStr x)"
    using assms(1,2) by (simp add: format_payload_def EncodingType_JSON_def jsonify_string)
  show ?thesis
  proof (cases "truthy sec")
    case True
    then have "(\<exists>b. sec = PBytes b) \<or> (\<exists>y. sec = PStr y)"
      using assms(4) sec by auto
    then obtain sig where "create_signature env (PStr x) sec = Inr sig"
      using create_signature_text by blast
    then show ?thesis
      using assms(1,2) t ch sec h1 fp True by (simp add: prepare_def Let_def)
  next
    case False
    then show ?thesis
      using assms(1,2) t ch sec h1 fp by (simp add: prepare_def Let_def)
  qed
qed

text \<open>
  Claim C7. When the payload function returns a string and the encoding resolves to
  \<^verbatim>\<open>application/json\<close>, \<open>format_payload\<close> returns that string unchanged, and every
  mapping the send returns holds it under the key \<open>payload\<close>. The send does return a
  mapping whenever the custom headers are absent, false or a mapping and the signing
  secret is absent, false, a string or bytes.
\<close>

theorem string_payload_passthrough:
  "\<forall>x. get_payload s = Inr (PayStr x) \<and> get_encoding s = Inr (PStr ''application/json'')
     \<longrightarrow> format_payload env s = Inr (PStr x)
         \<and> (\<forall>out. snd (priv_send env s) = Inr out \<longrightarrow> out ''payload'' = Some (PStr x))
         \<and> ((\<forall>v. get_custom_headers s = Inr v \<longrightarrow> \<not> truthy v \<or> (\<exists>m. v = PDict m))
              \<and> (\<forall>v. get_signing_secret s = Inr v
                     \<longrightarrow> \<not> truthy v \<or> (\<exists>b. v = PBytes b) \<or> (\<exists>y. v = PStr y))
            \<longrightarrow> outcome_key (priv_send env s) ''payload'' = Inr (Some (PStr x)))"
proof (intro allI impI conjI)
  fix x
  assume a: "get_payload s = Inr (PayStr x) \<and> get_encoding s = Inr (PStr ''application/json'')"
  show "format_payload env s = Inr (PStr x)"
    using a by (simp add: format_payload_def EncodingType_JSON_def jsonify_string)
  have key: "add_hash (hash_value s) (payload_dict (PayStr x)) ''payload'' = Some (PStr x)"
    by (simp add: add_hash_def payload_dict_def split: option.splits)
  {
    fix out
    assume o: "snd (priv_send env s) = Inr out"
    then obtain p where p: "prepare env s = Inr p"
      by (cases "prepare env s") (simp_all add: priv_send_raises)
    have "payload p = PayStr x" using prepare_payload [OF p] a by simp
    then have "outcome_key (priv_send env s) ''payload'' = Inr (Some (PStr x))"
      using priv_send_payload_key [OF p] key by simp
    then show "out ''payload'' = Some (PStr x)"
      using o by (simp add: outcome_key_def)
  }
  assume b: "(\<forall>v. get_custom_headers s = Inr v \<longrightarrow> \<not> truthy v \<or> (\<exists>m. v = PDict m))
              \<and> (\<forall>v. get_signing_secret s = Inr v
                     \<longrightarrow> \<not> truthy v \<or> (\<exists>b. v = PBytes b) \<or> (\<exists>y. v = PStr y))"
  obtain p where p: "prepare env s = Inr p" "payload p = PayStr x"
    using prepare_string_json [of s x env] a b by blast
  show "outcome_key (priv_send env s) ''payload'' = Inr (Some (PStr x))"
    using priv_send_payload_key [OF p(1)] key p(2) by simp
qed

text \<open>
  Claim C8. In every mapping a send returns, each key of the payload mapping (the
  payload itself, or \<open>{payload: x}\<close> for a string \<open>x\<close>) other than \<open>hash\<close> holds the
  payload's value; in particular each of the metadata keys \<open>success\<close>, \<open>attempt\<close>,
  \<open>status_code\<close>, \<open>response\<close>, \<open>error\<close> and \<open>post_attributes\<close> that the payload also
  defines holds the payload's value. A hash value that is not empty is in the mapping
  under \<open>hash\<close>.
\<close>

theorem payload_keys_override_metadata:
  "\<forall>out p. snd (priv_send env s) = Inr out \<and> get_payload s = Inr p
     \<longrightarrow> (\<forall>k v. payload_dict p k = Some v \<and> k \<noteq> ''hash'' \<longrightarrow> out k = Some v)
         \<and> (\<forall>k \<in> {''success'', ''attempt'', ''status_code'', ''response'', ''error'',
                     ''post_attributes''}.
               \<forall>v. payload_dict p k = Some v \<longrightarrow> out k = Some v)
         \<and> (\<forall>h. hash_value s = Some h \<and> h \<noteq> [] \<longrightarrow> out ''hash'' = Some (PStr h))"
proof (intro allI impI)
  fix out p
  assume a: "snd (priv_send env s) = Inr out \<and> get_payload s = Inr p"
  then obtain q where q: "prepare env s = Inr q"
    by (cases "prepare env s") (simp_all add: priv_send_raises)
  have pq: "payload q = p" using prepare_payload [OF q] a by simp
  have look: "out k = Some v" if "add_hash (hash_value s) (payload_dict p) k = Some v" for k v
    using priv_send_payload_key [OF q, of k v] that pq a by (simp add: outcome_key_def)
  have other: "out k = Some v" if "payload_dict p k = Some v" "k \<noteq> ''hash''" for k v
    using look [of k v] that by (simp add: add_hash_def split: option.splits)
  have hash: "out ''hash'' = Some (PStr h)" if "hash_value s = Some h" "h \<noteq> []" for h
    using look [of "''hash''" "PStr h"] that by (simp add: add_hash_def)
  show "(\<forall>k v. payload_dict p k = Some v \<and> k \<noteq> ''hash'' \<longrightarrow> out k = Some v)
         \<and> (\<forall>k \<in> {''success'', ''attempt'', ''status_code'', ''response'', ''error'',
                     ''post_attributes''}.
               \<forall>v. payload_dict p k = Some v \<longrightarrow> out k = Some v)
         \<and> (\<forall>h. hash_value s = Some h \<and> h \<noteq> [] \<longrightarrow> out ''hash'' = Some (PStr h))"
    using other hash by auto
qed

text \<open>
  Claim C10 as stated fails when the payload defines a metadata key: the payload is
  merged last (line 195), so for the schedule \<open>[0]\<close> and a payload with
  \<open>success = True\<close> and \<open>attempt = 7\<close> the returned mapping has \<open>success = True\<close>,
  not \<open>False\<close>, and holds the key \<open>attempt\<close>, which the claim says is missing.
\<close>

theorem single_entry_payload_collision_counterexample:
  "length [0::nat] = 1
   \<and> outcome_key (priv_send (example_env status_500_then_200 ''{}'')
         (example_sender (PayDict [''success'' \<mapsto> PBool True, ''attempt'' \<mapsto> PInt 7]) None [0]))
       ''success'' = Inr (Some (PBool True))
   \<and> outcome_key (priv_send (example_env status_500_then_200 ''{}'')
         (example_sender (PayDict [''success'' \<mapsto> PBool True, ''attempt'' \<mapsto> PInt 7]) None [0]))
       ''success'' \<noteq> Inr (Some (PBool False))
   \<and> outcome_key (priv_send (example_env status_500_then_200 ''{}'')
         (example_sender (PayDict [''success'' \<mapsto> PBool True, ''attempt'' \<mapsto> PInt 7]) None [0]))
       ''attempt'' = Inr (Some (PInt 7))
   \<and> outcome_key (priv_send (example_env status_500_then_200 ''{}'')
         (example_sender (PayDict [''success'' \<mapsto> PBool True, ''attempt'' \<mapsto> PInt 7]) None [0]))
       ''attempt'' \<noteq> Inr None"
proof -
  let ?E = "example_env status_500_then_200 ''{}''"
  let ?M = "[''success'' \<mapsto> PBool True, ''attempt'' \<mapsto> PInt 7]"
  let ?S = "example_sender (PayDict ?M) None [0]"
  let ?P = "\<lparr>payload = PayDict ?M, timeout = PInt 5,
            headers = [''Content-Type'' \<mapsto> PStr ''application/json''], data = PStr ''{}''\<rparr>"
  have len: "length [0::nat] = 1" by simp
  have p: "prepare ?E ?S = Inr ?P" by (rule example_prepare_dict)
  have key1: "add_hash (hash_value ?S) (payload_dict (payload ?P)) ''success'' = Some (PBool True)"
    by (simp add: example_fields add_hash_def payload_dict_def)
  have key2: "add_hash (hash_value ?S) (payload_dict (payload ?P)) ''attempt'' = Some (PInt 7)"
    by (simp add: example_fields add_hash_def payload_dict_def)
  have s1: "outcome_key (priv_send ?E ?S) ''success'' = Inr (Some (PBool True))"
    by (rule priv_send_payload_key [OF p key1])
  then have s2: "outcome_key (priv_send ?E ?S) ''success'' \<noteq> Inr (Some (PBool False))"
    by simp
  have a1: "outcome_key (priv_send ?E ?S) ''attempt'' = Inr (Some (PInt 7))"
    by (rule priv_send_payload_key [OF p key2])
  then have a2: "outcome_key (priv_send ?E ?S) ''attempt'' \<noteq> Inr None"
    by simp
  from len s1 s2 a1 a2 show ?thesis by blast
qed

text \<open>
  Claim C10, amended. For a schedule of length exactly 1 the send of a new object
  calls the transport and \<^verbatim>\<open>sleep\<close> not at all; when the set-up before the loop
  raises nothing it returns the mapping with \<open>success = False\<close>, \<open>error = None\<close> and
  \<open>post_attributes\<close>, merged with the payload and the hash value and nothing else.
  So under every key that the payload (with the hash) does not define, the mapping
  has \<open>success = False\<close>, \<open>error = None\<close>, \<open>post_attributes\<close>, and no entry at all
  for any other key: \<open>attempt\<close>, \<open>status_code\<close> and \<open>response\<close> are missing unless the
  payload supplies them.
\<close>

theorem send_single_entry_schedule:
  "length att = 1 \<longrightarrow>
     events (fst (priv_send env (Senderable w dk h att a kw))) = []
     \<and> posts (events (fst (priv_send env (Senderable w dk h att a kw)))) = 0
     \<and> sleeps (events (fst (priv_send env (Senderable w dk h att a kw)))) = []
     \<and> (\<forall>e. prepare env (Senderable w dk h att a kw) = Inl e
           \<longrightarrow> snd (priv_send env (Senderable w dk h att a kw)) = Inl e)
     \<and> (\<forall>p. prepare env (Senderable w dk h att a kw) = Inr p
           \<longrightarrow> (\<exists>pa. snd (priv_send env (Senderable w dk h att a kw))
                    = Inr ([''success'' \<mapsto> PBool False, ''error'' \<mapsto> PNone, ''post_attributes'' \<mapsto> pa]
                           ++ add_hash h (payload_dict (payload p))))
               \<and> (\<forall>key. add_hash h (payload_dict (payload p)) key = None
                     \<longrightarrow> outcome_key (priv_send env (Senderable w dk h att a kw)) key
                         = Inr (if key = ''success'' then Some (PBool False)
                                else if key = ''error'' then Some PNone
                                else if key = ''post_attributes''
                                then report p (initial_run (Senderable w dk h att a kw)) key
                                else None)))"
proof (intro impI)
  assume len: "length att = 1"
  let ?S = "Senderable w dk h att a kw"
  have it: "iterations ?S = []"
    using len by (simp add: iterations_def Senderable_def enumerate_eq_zip)
  have hv: "hash_value ?S = h" "error ?S = None" by (simp_all add: Senderable_def)
  have loop: "send_loop env (iterations ?S) (initial_run ?S) = initial_run ?S"
    using it by simp
  have ev0: "events (initial_run ?S) = []" by (simp add: initial_run_def)
  have "fst (priv_send env ?S) = initial_run ?S"
    by (cases "prepare env ?S") (simp_all add: priv_send_raises priv_send_prepared loop)
  then have ev: "events (fst (priv_send env ?S)) = []"
    using ev0 by simp
  have raised: "\<forall>e. prepare env ?S = Inl e \<longrightarrow> snd (priv_send env ?S) = Inl e"
    by (simp add: priv_send_raises)
  have ret: "(\<exists>pa. snd (priv_send env ?S)
                    = Inr ([''success'' \<mapsto> PBool False, ''error'' \<mapsto> PNone, ''post_attributes'' \<mapsto> pa]
                           ++ add_hash h (payload_dict (payload p))))
               \<and> (\<forall>key. add_hash h (payload_dict (payload p)) key = None
                     \<longrightarrow> outcome_key (priv_send env ?S) key
                         = Inr (if key = ''success'' then Some (PBool False)
                                else if key = ''error'' then Some PNone
                                else if key = ''post_attributes''
                                then report p (initial_run ?S) key
                                else None))"
    if p: "prepare env ?S = Inr p" for p
  proof -
    have ps: "priv_send env ?S = (initial_run ?S, Inr (report p (initial_run ?S)))"
      using p by (simp add: priv_send_prepared loop)
    have rep: "\<exists>pa. report p (initial_run ?S)
        = [''success'' \<mapsto> PBool False, ''error'' \<mapsto> PNone, ''post_attributes'' \<mapsto> pa]
            ++ add_hash h (payload_dict (payload p))"
      by (simp add: report_def initial_run_def hv Let_def) (rule exI, rule refl)
    have keys: "report p (initial_run ?S) key
        = (if key = ''success'' then Some (PBool False)
           else if key = ''error'' then Some PNone
           else if key = ''post_attributes'' then report p (initial_run ?S) key
           else None)"
      if "add_hash h (payload_dict (payload p)) key = None" for key
      using that by (auto simp: report_def initial_run_def hv Let_def map_add_def)
    show ?thesis using ps rep keys by (simp add: outcome_key_def)
  qed
  show "events (fst (priv_send env ?S)) = []
     \<and> posts (events (fst (priv_send env ?S))) = 0
     \<and> sleeps (events (fst (priv_send env ?S))) = []
     \<and> (\<forall>e. prepare env ?S = Inl e \<longrightarrow> snd (priv_send env ?S) = Inl e)
     \<and> (\<forall>p. prepare env ?S = Inr p
           \<longrightarrow> (\<exists>pa. snd (priv_send env ?S)
                    = Inr ([''success'' \<mapsto> PBool False, ''error'' \<mapsto> PNone, ''post_attributes'' \<mapsto> pa]
                           ++ add_hash h (payload_dict (payload p))))
               \<and> (\<forall>key. add_hash h (payload_dict (payload p)) key = None
                     \<longrightarrow> outcome_key (priv_send env ?S) key
                         = Inr (if key = ''success'' then Some (PBool False)
                                else if key = ''error'' then Some PNone
                                else if key = ''post_attributes''
                                then report p (initial_run ?S) key
                                else None)))"
    using ev raised ret by (simp add: posts_def sleeps_def)
qed

text \<open>The string payload \<open>raw\<close> with the JSON encoding, no custom headers and no secret.\<close>

theorem string_payload_passthrough_witness:
  "get_payload (example_sender (PayStr ''raw'') None [0, 1, 0]) = Inr (PayStr ''raw'')
   \<and> get_encoding (example_sender (PayStr ''raw'') None [0, 1, 0]) = Inr (PStr ''application/json'')
   \<and> get_custom_headers (example_sender (PayStr ''raw'') None [0, 1, 0]) = Inr PNone
   \<and> get_signing_secret (example_sender (PayStr ''raw'') None [0, 1, 0]) = Inr PNone
   \<and> format_payload (example_env status_500_then_200 []) (example_sender (PayStr ''raw'') None [0, 1, 0])
       = Inr (PStr ''raw'')
   \<and> outcome_key (priv_send (example_env status_500_then_200 [])
                     (example_sender (PayStr ''raw'') None [0, 1, 0])) ''payload''
       = Inr (Some (PStr ''raw''))"
proof -
  let ?E = "example_env status_500_then_200 []"
  let ?S = "example_sender (PayStr ''raw'') None [0, 1, 0]"
  have g1: "get_payload ?S = Inr (PayStr ''raw'')"
    by (simp add: get_payload_def example_sender_def Senderable_def)
  have g2: "get_encoding ?S = Inr (PStr ''application/json'')"
    by (simp add: get_encoding_def example_sender_def Senderable_def example_kwargs_def
          priv_value_in_def EncodingType_JSON_def)
  have g3: "get_custom_headers ?S = Inr PNone"
    by (simp add: get_custom_headers_def example_sender_def Senderable_def example_kwargs_def
          priv_value_in_def)
  have g4: "get_signing_secret ?S = Inr PNone"
    by (simp add: get_signing_secret_def example_sender_def Senderable_def example_kwargs_def
          priv_value_in_def)
  have prem: "get_payload ?S = Inr (PayStr ''raw'') \<and> get_encoding ?S = Inr (PStr ''application/json'')"
    using g1 g2 by simp
  note concl = string_payload_passthrough [of ?S ?E, rule_format, OF prem]
  have c1: "format_payload ?E ?S = Inr (PStr ''raw'')" using concl by blast
  have ok: "(\<forall>v. get_custom_headers ?S = Inr v \<longrightarrow> \<not> truthy v \<or> (\<exists>m. v = PDict m))
              \<and> (\<forall>v. get_signing_secret ?S = Inr v
                     \<longrightarrow> \<not> truthy v \<or> (\<exists>b. v = PBytes b) \<or> (\<exists>y. v = PStr y))"
    using g3 g4 by simp
  have c2: "outcome_key (priv_send ?E ?S) ''payload'' = Inr (Some (PStr ''raw''))"
    using concl ok by blast
  from g1 g2 g3 g4 c1 c2 show ?thesis by blast
qed

text \<open>
  Hash value \<open>abc123\<close> and a payload with the keys \<open>x\<close> and \<open>attempt\<close>, delivered at
  the first attempt: the metadata has \<open>attempt = 1\<close>, the returned mapping the
  payload's 7.
\<close>

theorem payload_keys_override_metadata_witness:
  "get_payload (example_sender (PayDict [''x'' \<mapsto> PInt 1, ''attempt'' \<mapsto> PInt 7]) (Some ''abc123'') [0, 0])
     = Inr (PayDict [''x'' \<mapsto> PInt 1, ''attempt'' \<mapsto> PInt 7])
   \<and> hash_value (example_sender (PayDict [''x'' \<mapsto> PInt 1, ''attempt'' \<mapsto> PInt 7]) (Some ''abc123'') [0, 0])
     = Some ''abc123''
   \<and> sending_metadata (fst (priv_send (example_env latin1_reply ''{}'')
         (example_sender (PayDict [''x'' \<mapsto> PInt 1, ''attempt'' \<mapsto> PInt 7]) (Some ''abc123'') [0, 0])))
       ''attempt'' = Some (PInt 1)
   \<and> outcome_key (priv_send (example_env latin1_reply ''{}'')
         (example_sender (PayDict [''x'' \<mapsto> PInt 1, ''attempt'' \<mapsto> PInt 7]) (Some ''abc123'') [0, 0]))
       ''attempt'' = Inr (Some (PInt 7))
   \<and> outcome_key (priv_send (example_env latin1_reply ''{}'')
         (example_sender (PayDict [''x'' \<mapsto> PInt 1, ''attempt'' \<mapsto> PInt 7]) (Some ''abc123'') [0, 0]))
       ''x'' = Inr (Some (PInt 1))
   \<and> outcome_key (priv_send (example_env latin1_reply ''{}'')
         (example_sender (PayDict [''x'' \<mapsto> PInt 1, ''attempt'' \<mapsto> PInt 7]) (Some ''abc123'') [0, 0]))
       ''hash'' = Inr (Some (PStr ''abc123''))"
proof -
  let ?E = "example_env latin1_reply ''{}''"
  let ?M = "[''x'' \<mapsto> PInt 1, ''attempt'' \<mapsto> PInt 7]"
  let ?S = "example_sender (PayDict ?M) (Some ''abc123'') [0, 0]"
  let ?P = "\<lparr>payload = PayDict ?M, timeout = PInt 5,
            headers = [''Content-Type'' \<mapsto> PStr ''application/json''], data = PStr ''{}''\<rparr>"
  let ?R = "\<lparr>status_code = 200, response_text = [CHR 0xC3, CHR 0xA9], content_utf8 = Inr [CHR 0xE9]\<rparr>"
  have g1: "get_payload ?S = Inr (PayDict ?M)"
    by (simp add: get_payload_def example_sender_def Senderable_def)
  have g2: "hash_value ?S = Some ''abc123''" by (simp add: example_fields)
  have p: "prepare ?E ?S = Inr ?P" by (rule example_prepare_dict)
  have prem1: "prepare ?E ?S = Inr ?P \<and> get_url ?S = Inr example_url
         \<and> 1 \<le> (1::nat) \<and> 1 \<le> length (attempts ?S) - 1
         \<and> (\<forall>j. 1 \<le> j \<and> j < 1 \<longrightarrow> failure_message (transport ?E j) \<noteq> None)
         \<and> transport ?E 1 = Returns ?R
         \<and> 200 \<le> status_code ?R \<and> status_code ?R < 300
         \<and> content_utf8 ?R = Inr [CHR 0xE9]"
    using p by (simp add: example_get_url example_fields example_transport latin1_reply_def)
  note loop = priv_send_first_success [OF prem1]
  have md: "sending_metadata (fst (priv_send ?E ?S)) ''attempt'' = Some (PInt 1)"
    using loop by simp
  have out: "snd (priv_send ?E ?S) = Inr (report ?P (fst (priv_send ?E ?S)))"
    using loop by blast
  have prem: "snd (priv_send ?E ?S) = Inr (report ?P (fst (priv_send ?E ?S)))
      \<and> get_payload ?S = Inr (PayDict ?M)"
    using out g1 by simp
  note concl = payload_keys_override_metadata [of ?E ?S, rule_format, OF prem]
  have pd: "payload_dict (PayDict ?M) ''attempt'' = Some (PInt 7)"
      "payload_dict (PayDict ?M) ''x'' = Some (PInt 1)"
    by (simp_all add: payload_dict_def)
  have r1: "report ?P (fst (priv_send ?E ?S)) ''attempt'' = Some (PInt 7)"
    using concl pd by simp
  have r2: "report ?P (fst (priv_send ?E ?S)) ''x'' = Some (PInt 1)"
    using concl pd by simp
  have r3: "report ?P (fst (priv_send ?E ?S)) ''hash'' = Some (PStr ''abc123'')"
    using concl g2 by simp
  have k1: "outcome_key (priv_send ?E ?S) ''attempt'' = Inr (Some (PInt 7))"
    using out r1 by (simp add: outcome_key_def)
  have k2: "outcome_key (priv_send ?E ?S) ''x'' = Inr (Some (PInt 1))"
    using out r2 by (simp add: outcome_key_def)
  have k3: "outcome_key (priv_send ?E ?S) ''hash'' = Inr (Some (PStr ''abc123''))"
    using out r3 by (simp add: outcome_key_def)
  from g1 g2 md k1 k2 k3 show ?thesis by blast
qed

text \<open>The schedule \<open>[0]\<close> with a string payload.\<close>

theorem send_single_entry_schedule_witness:
  "length [0::nat] = 1
   \<and> prepare (example_env status_500_then_200 [])
        (Senderable (\<lambda>a k. Inr (PayStr ''raw'')) Map.empty None [0] [] example_kwargs)
     = Inr \<lparr>payload = PayStr ''raw'', timeout = PInt 5,
            headers = [''Content-Type'' \<mapsto> PStr ''application/json''], data = PStr ''raw''\<rparr>
   \<and> events (fst (priv_send (example_env status_500_then_200 [])
        (Senderable (\<lambda>a k. Inr (PayStr ''raw'')) Map.empty None [0] [] example_kwargs))) = []
   \<and> outcome_key (priv_send (example_env status_500_then_200 [])
        (Senderable (\<lambda>a k. Inr (PayStr ''raw'')) Map.empty None [0] [] example_kwargs)) ''success''
       = Inr (Some (PBool False))
   \<and> outcome_key (priv_send (example_env status_500_then_200 [])
        (Senderable (\<lambda>a k. Inr (PayStr ''raw'')) Map.empty None [0] [] example_kwargs)) ''error''
       = Inr (Some PNone)
   \<and> outcome_key (priv_send (example_env status_500_then_200 [])
        (Senderable (\<lambda>a k. Inr (PayStr ''raw'')) Map.empty None [0] [] example_kwargs)) ''attempt''
       = Inr None
   \<and> outcome_key (priv_send (example_env status_500_then_200 [])
        (Senderable (\<lambda>a k. Inr (PayStr ''raw'')) Map.empty None [0] [] example_kwargs)) ''status_code''
       = Inr None
   \<and> outcome_key (priv_send (example_env status_500_then_200 [])
        (Senderable (\<lambda>a k. Inr (PayStr ''raw'')) Map.empty None [0] [] example_kwargs)) ''response''
       = Inr None
   \<and> outcome_key (priv_send (example_env status_500_then_200 [])
        (Senderable (\<lambda>a k. Inr (PayStr ''raw'')) Map.empty None [0] [] example_kwargs)) ''payload''
       = Inr (Some (PStr ''raw''))"
proof -
  let ?E = "example_env status_500_then_200 []"
  let ?S = "Senderable (\<lambda>a k. Inr (PayStr ''raw'')) Map.empty None [0] [] example_kwargs"
  let ?P = "\<lparr>payload = PayStr ''raw'', timeout = PInt 5,
            headers = [''Content-Type'' \<mapsto> PStr ''application/json''], data = PStr ''raw''\<rparr>"
  have len: "length [0::nat] = 1" by simp
  have p: "prepare ?E ?S = Inr ?P"
    using example_prepare [of status_500_then_200 "[]" "''raw''" None "[0]"]
    by (simp add: example_sender_def)
  note concl = send_single_entry_schedule
    [of "[0]" ?E "\<lambda>a k. Inr (PayStr ''raw'')" Map.empty None "[]" example_kwargs, rule_format, OF len]
  have ev: "events (fst (priv_send ?E ?S)) = []" using concl by blast
  have nokey: "add_hash None (payload_dict (payload ?P)) key = None" if "key \<noteq> ''payload''" for key
    using that by (simp add: add_hash_def payload_dict_def)
  have key: "outcome_key (priv_send ?E ?S) k
      = Inr (if k = ''success'' then Some (PBool False)
             else if k = ''error'' then Some PNone
             else if k = ''post_attributes'' then report ?P (initial_run ?S) k
             else None)"
    if "k \<noteq> ''payload''" for k
    using concl p nokey [OF that] by blast
  have k1: "outcome_key (priv_send ?E ?S) ''success'' = Inr (Some (PBool False))"
    using key [of "''success''"] by simp
  have k2: "outcome_key (priv_send ?E ?S) ''error'' = Inr (Some PNone)"
    using key [of "''error''"] by simp
  have k3: "outcome_key (priv_send ?E ?S) ''attempt'' = Inr None"
    using key [of "''attempt''"] by simp
  have k4: "outcome_key (priv_send ?E ?S) ''status_code'' = Inr None"
    using key [of "''status_code''"] by simp
  have k5: "outcome_key (priv_send ?E ?S) ''response'' = Inr None"
    using key [of "''response''"] by simp
  have "\<exists>pa. snd (priv_send ?E ?S)
      = Inr ([''success'' \<mapsto> PBool False, ''error'' \<mapsto> PNone, ''post_attributes'' \<mapsto> pa]
             ++ add_hash None (payload_dict (payload ?P)))"
    using concl p by blast
  then have k6: "outcome_key (priv_send ?E ?S) ''payload'' = Inr (Some (PStr ''raw''))"
    by (auto simp: outcome_key_def add_hash_def payload_dict_def)
  from len p ev k1 k2 k3 k4 k5 k6 show ?thesis by blast
qed

section \<open>The signature\<close>

lemma length_hexdigest: "length (hexdigest bs) = 2 * length bs"
  by (induction bs) (simp_all add: hexdigest_def)

lemma length_digest_bytes: "length (digest_bytes s) = 32"
  by (simp add: digest_bytes_def bytes_of_u32_def split: prod.splits)

lemma length_sha256: "length (sha256 m) = 32"
  by (simp add: sha256_def Let_def length_digest_bytes)

lemma create_signature_strings:
  "create_signature env (PStr x) (PStr y)
     = Inr (''sha256='' @ hexdigest (sha256 (utf8 y @ utf8 x)))"
  by (simp add: create_signature_def)

text \<open>
  A mapping is first form-encoded by the transport library's encoder; a secret given
  as bytes is used as it is.
\<close>

lemma create_signature_mapping:
  "encode_params env (PDict m) = PStr z \<Longrightarrow>
     create_signature env (PDict m) (PStr y)
       = Inr (''sha256='' @ hexdigest (sha256 (utf8 y @ utf8 z)))"
  by (simp add: create_signature_def)

lemma create_signature_bytes_secret:
  "create_signature env (PStr x) (PBytes b) = Inr (''sha256='' @ hexdigest (sha256 (b @ utf8 x)))"
  by (simp add: create_signature_def)

text \<open>The digest of \<open>abc\<close>, the first test vector of the standard.\<close>

lemma sha256_abc:
  "hexdigest (sha256 (utf8 ''abc''))
     = ''ba7816bf8f01cfea414140de5dae2223b00361a396177a9cb410ff61f20015ad''"
  by code_simp

text \<open>
  The secret \<open>secret\<close> and the body \<open>example_body\<close>: the digest of the secret followed
  by the body, and the HMAC of the body under the secret.
\<close>

lemma example_plain_digest:
  "hexdigest (sha256 (utf8 ''secret'' @ utf8 example_body))
     = ''37bd34e4b292ef9df8bfe70e3f50526139249490c3c2594cf20175ba7665e01d''"
  by code_simp

lemma example_hmac_digest:
  "hexdigest (hmac_sha256 (utf8 ''secret'') (utf8 example_body))
     = ''aa9e2e3575f5d7098b6caccd790888c36d5fdb63342a73bada2d6a51747a8494''"
  by code_simp

text \<open>
  Claim C2. For a string body and a string secret \<open>create_signature\<close> returns
  \<open>sha256=\<close> followed by the 64 lowercase hexadecimal digits of the SHA-256 digest of
  the UTF-8 bytes of the secret followed by those of the body. That is not the HMAC
  of the claim: for the secret \<open>secret\<close> and the body \<open>example_body\<close> the source's
  signature ends in \<open>...e01d\<close> and the HMAC-SHA256 in \<open>...8494\<close>.
\<close>

theorem create_signature_is_plain_hash:
  "create_signature env (PStr x) (PStr y)
     = Inr (''sha256='' @ hexdigest (sha256 (utf8 y @ utf8 x)))
   \<and> length (hexdigest (sha256 m)) = 64
   \<and> create_signature env (PStr example_body) (PStr ''secret'')
       = Inr ''sha256=37bd34e4b292ef9df8bfe70e3f50526139249490c3c2594cf20175ba7665e01d''
   \<and> ''sha256='' @ hexdigest (hmac_sha256 (utf8 ''secret'') (utf8 example_body))
       = ''sha256=aa9e2e3575f5d7098b6caccd790888c36d5fdb63342a73bada2d6a51747a8494''
   \<and> create_signature env (PStr example_body) (PStr ''secret'')
       \<noteq> Inr (''sha256='' @ hexdigest (hmac_sha256 (utf8 ''secret'') (utf8 example_body)))"
proof -
  have a: "create_signature env (PStr example_body) (PStr ''secret'')
       = Inr ''sha256=37bd34e4b292ef9df8bfe70e3f50526139249490c3c2594cf20175ba7665e01d''"
    by (simp add: create_signature_strings example_plain_digest)
  have b: "''sha256='' @ hexdigest (hmac_sha256 (utf8 ''secret'') (utf8 example_body))
       = ''sha256=aa9e2e3575f5d7098b6caccd790888c36d5fdb63342a73bada2d6a51747a8494''"
    by (simp add: example_hmac_digest)
  have c: "create_signature env (PStr example_body) (PStr ''secret'')
       \<noteq> Inr (''sha256='' @ hexdigest (hmac_sha256 (utf8 ''secret'') (utf8 example_body)))"
    unfolding a b by simp
  have d: "length (hexdigest (sha256 m)) = 64"
    by (simp add: length_hexdigest length_sha256)
  from create_signature_strings [of env x y] d a b c show ?thesis by blast
qed

end
